theory Spec2Isabelle
  imports Main
begin

unbundle bit_operations_syntax

section \<open>Levels (logger.go)\<close>

text \<open>
  The \<open>iota\<close> block of logger.go: the blank identifier takes 0, the five levels take 1 to 5.
  Go's \<open>int\<close> is modelled as \<open>int\<close>; no arithmetic is done on levels.
\<close>

definition LevelError :: int where "LevelError = 1"
definition LevelWarning :: int where "LevelWarning = 2"
definition LevelNotice :: int where "LevelNotice = 3"
definition LevelInfo :: int where "LevelInfo = 4"
definition LevelDebug :: int where "LevelDebug = 5"

text \<open>
  file.go spells the same constants unexported; the \<open>iota\<close> block with these names is the one
  of the earlier logger.go kept under src/unnamed, with the same values.
\<close>

definition levelError :: int where "levelError = 1"
definition levelWarning :: int where "levelWarning = 2"
definition levelNotice :: int where "levelNotice = 3"
definition levelInfo :: int where "levelInfo = 4"
definition levelDebug :: int where "levelDebug = 5"

definition defaultLevel :: string where "defaultLevel = ''info''"

text \<open>
  \<open>levelMap\<close> is a Go map literal with five distinct keys. It is only ever ranged over and
  never updated, so an association list holds it; the iteration order of the Go map is
  unspecified, and the one loop over it writes to five distinct keys, so every order gives
  the same table.
\<close>

definition levelMap :: "(string \<times> int) list" where
  "levelMap =
    [(''error'', LevelError),
     (''warning'', LevelWarning),
     (''notice'', LevelNotice),
     (''info'', LevelInfo),
     (''debug'', LevelDebug)]"

definition fileColors :: "int \<rightharpoonup> string" where
  "fileColors =
    [levelError \<mapsto> ''red'',
     levelWarning \<mapsto> ''yellow'',
     levelNotice \<mapsto> ''magenta'',
     levelInfo \<mapsto> ''blue'',
     levelDebug \<mapsto> ''cyan'']"

text \<open>Indexing a Go \<open>map[int]string\<close>: a missing key (and the nil map) gives the empty string.\<close>

definition index_map :: "(int \<rightharpoonup> string) \<Rightarrow> int \<Rightarrow> string" where
  "index_map m k = (case m k of None \<Rightarrow> '''' | Some v \<Rightarrow> v)"

section \<open>Errors and configurations\<close>

text \<open>
  \<open>ErrInvalidLevel\<close> is declared in the errors file (src/unnamed); \<open>ErrUnsupportedBackend\<close> is
  used by \<open>NewLogger\<close>. \<open>OsError\<close> carries the message of an error returned by the operating
  system layer, \<open>FmtError\<close> the message of an error built by \<open>fmt.Errorf\<close>.
\<close>

datatype error = ErrInvalidLevel | ErrUnsupportedBackend | OsError string | FmtError string

text \<open>
  Modelled from the spec: the declaration of \<open>FileConfig\<close> is not among the sources. file.go
  reads its field \<open>Path\<close>; the spec (section 6) gives the file/console configuration a path
  and a level name.
\<close>

record FileConfig =
  Path :: string
  Level :: string

text \<open>
  Modelled from the spec: the declaration of \<open>SyslogConfig\<close> is not among the sources; the
  spec gives it a facility/tag and a level name.
\<close>

datatype SyslogConfig = SyslogConfig (sys_tag: string) (sys_level: string)

text \<open>
  \<open>NewLogger\<close> takes \<open>...interface{}\<close> and switches on the dynamic type. \<open>COther\<close> stands for a
  value of any other dynamic type (an \<open>int\<close>, a \<open>*FileConfig\<close>, ...), tagged with the type's name.
\<close>

datatype config = CFile FileConfig | CSyslog SyslogConfig | COther string

section \<open>The world: heap, files, package globals\<close>

type_synonym addr = nat

datatype file_ref = Stderr | File nat

record ofile =
  f_path :: string
  f_closed :: bool
  f_data :: "string list"

text \<open>\<open>log.Logger\<close> as created by \<open>log.New(out, prefix, flag)\<close>.\<close>

record log_Logger =
  lg_out :: file_ref
  lg_prefix :: string
  lg_flag :: nat

record Logger =
  backends :: "addr list"
  context' :: string

text \<open>
  The fields \<open>context\<close> of Logger and \<open>output\<close> of fileBackend carry a prime: both words
  are reserved in Isabelle.
\<close>

record fileBackend =
  logger :: addr
  output' :: file_ref
  writer :: log_Logger

text \<open>
  Modelled from the spec: syslog.go is not among the sources. A syslog backend object only
  remembers the logger and the configuration it was made from; what it does on \<open>Write\<close> and
  \<open>Close\<close> is outside the model, the calls themselves are recorded in \<open>calls\<close>.
\<close>

record syslogBackend =
  sl_logger :: addr
  sl_config :: SyslogConfig

datatype backend = FileBackend fileBackend | SyslogBackend syslogBackend

datatype open_flag = O_APPEND | O_CREATE | O_WRONLY

datatype fs_call = MkdirAll string nat | OpenFile string "open_flag set" nat

datatype call = BWrite addr int string string | BClose addr

text \<open>
  The state the code runs in.
  \<^item> \<open>loggers\<close> and \<open>objs\<close> are the heap: a \<open>*Logger\<close> is an index into \<open>loggers\<close>, a value of
    the interface type \<open>backend\<close> is an index into \<open>objs\<close>. An index at or beyond the length is
    a pointer to nothing; dereferencing it is the panic of the source. Allocation appends.
    The slice \<open>backends\<close> of a Logger is the list of the objects it refers to: nothing appends
    to or overwrites a slice after \<open>NewLogger\<close> has returned, so two slice headers over the same
    backing array are two equal lists of the same references.
  \<^item> \<open>fileLabels\<close> is the package-level variable of file.go; the nil map is \<open>Map.empty\<close>.
  \<^item> \<open>stderr\<close> is \<open>os.Stderr\<close>, \<open>files\<close> the files returned by \<open>os.OpenFile\<close>;
    \<open>f_data\<close> is what has been written through the handle, one entry per write.
  \<^item> \<open>fs_calls\<close> records the calls made to the file system, \<open>calls\<close> the calls made through
    the \<open>backend\<close> interface, both oldest first.
  \<^item> \<open>ticks\<close> counts the readings of the clock.
\<close>

record world =
  loggers :: "Logger list"
  objs :: "backend list"
  fileLabels :: "int \<rightharpoonup> string"
  stderr :: ofile
  files :: "ofile list"
  fs_calls :: "fs_call list"
  calls :: "call list"
  ticks :: nat

record time =
  year :: nat
  month :: nat
  day :: nat
  hour :: nat
  minute :: nat
  second :: nat
  nanosecond :: nat

text \<open>
  What the code calls and this repository does not define: the \<open>ansi\<close> and \<open>fmt\<close> packages,
  the outcome of the file system calls (\<open>None\<close> is the nil error, \<open>Some m\<close> an error with
  message \<open>m\<close>), of a write to an open file, of constructing a syslog backend (syslog.go
  is not among the sources), and the clock. Every
  theorem below holds for every such environment.
\<close>

record 'v env =
  ansi_Color :: "string \<Rightarrow> string \<Rightarrow> string"
  Sprintf :: "string \<Rightarrow> 'v list \<Rightarrow> string"
  os_MkdirAll :: "world \<Rightarrow> string \<Rightarrow> nat \<Rightarrow> string option"
  os_OpenFile :: "world \<Rightarrow> string \<Rightarrow> open_flag set \<Rightarrow> nat \<Rightarrow> string option"
  os_Write :: "world \<Rightarrow> file_ref \<Rightarrow> string \<Rightarrow> string option"
  syslog_New :: "world \<Rightarrow> SyslogConfig \<Rightarrow> error option"
  time_Now :: "nat \<Rightarrow> time"

section \<open>Library functions the code calls\<close>

text \<open>
  \<open>strings.ToUpper\<close>, on the ASCII letters: the code applies it to the five keys of
  \<open>levelMap\<close> only.
\<close>

definition upper_char :: "char \<Rightarrow> char" where
  "upper_char c =
     (let n = (of_char c :: nat)
      in if 97 \<le> n \<and> n \<le> 122 then char_of (n - 32) else c)"

definition ToUpper :: "string \<Rightarrow> string" where
  "ToUpper s = map upper_char s"

text \<open>
  \<open>path.Split\<close>: the path is cut after its last slash; with no slash the directory is
  empty.
\<close>

definition path_Split :: "string \<Rightarrow> string \<times> string" where
  "path_Split p =
     (rev (dropWhile (\<lambda>c. c \<noteq> CHR ''/'') (rev p)),
      rev (takeWhile (\<lambda>c. c \<noteq> CHR ''/'') (rev p)))"

text \<open>The flag bits of package \<open>log\<close>.\<close>

definition Ldate :: nat where "Ldate = 1"
definition Ltime :: nat where "Ltime = 2"
definition Lmicroseconds :: nat where "Lmicroseconds = 4"
definition LstdFlags :: nat where "LstdFlags = Ldate OR Ltime"

definition log_New :: "file_ref \<Rightarrow> string \<Rightarrow> nat \<Rightarrow> log_Logger" where
  "log_New out pre flag = \<lparr>lg_out = out, lg_prefix = pre, lg_flag = flag\<rparr>"

text \<open>
  \<open>itoa\<close> of package \<open>log\<close>: decimal digits, padded with zeros to at least \<open>wid\<close> of them.
  The source counts \<open>wid\<close> down below zero once the number has more digits than the width;
  the test \<open>wid > 1\<close> reads the same on a natural number that stops at zero.
\<close>

definition digit :: "nat \<Rightarrow> char" where
  "digit d = ''0123456789'' ! (d mod 10)"

function itoa :: "nat \<Rightarrow> nat \<Rightarrow> string" where
  "itoa i wid =
     (if 10 \<le> i \<or> 1 < wid then itoa (i div 10) (wid - 1) @ [digit (i mod 10)]
      else [digit i])"
  by pat_completeness auto
termination
  by (relation "measure (\<lambda>(i, wid). i + wid)") auto

declare itoa.simps [simp del]

text \<open>
  \<open>formatHeader\<close> of package \<open>log\<close>, for the date, time and microsecond flags. The file and
  UTC flags are left out: the one \<open>log.Logger\<close> this code creates never sets them.
\<close>

definition formatHeader :: "log_Logger \<Rightarrow> time \<Rightarrow> string" where
  "formatHeader l t =
     lg_prefix l @
     (if lg_flag l AND (Ldate OR Ltime OR Lmicroseconds) \<noteq> 0 then
        (if lg_flag l AND Ldate \<noteq> 0 then
           itoa (year t) 4 @ ''/'' @ itoa (month t) 2 @ ''/'' @ itoa (day t) 2 @ '' ''
         else '''') @
        (if lg_flag l AND (Ltime OR Lmicroseconds) \<noteq> 0 then
           itoa (hour t) 2 @ '':'' @ itoa (minute t) 2 @ '':'' @ itoa (second t) 2 @
           (if lg_flag l AND Lmicroseconds \<noteq> 0 then
              ''.'' @ itoa (nanosecond t div 1000) 6
            else '''') @
           '' ''
         else '''')
      else '''')"

text \<open>Reading and replacing the state of an open file.\<close>

definition file_get :: "world \<Rightarrow> file_ref \<Rightarrow> ofile option" where
  "file_get s f =
     (case f of
        Stderr \<Rightarrow> Some (stderr s)
      | File n \<Rightarrow> (if n < length (files s) then Some (files s ! n) else None))"

definition file_put :: "file_ref \<Rightarrow> ofile \<Rightarrow> world \<Rightarrow> world" where
  "file_put f x s =
     (case f of
        Stderr \<Rightarrow> s\<lparr>stderr := x\<rparr>
      | File n \<Rightarrow> s\<lparr>files := (files s)[n := x]\<rparr>)"

text \<open>
  \<open>(*os.File).Write\<close>: an error on a handle that is closed or refers to no file, the error
  of the operating system if it reports one, otherwise the bytes are appended.
\<close>

definition file_Write :: "'v env \<Rightarrow> file_ref \<Rightarrow> string \<Rightarrow> world \<Rightarrow> string option \<times> world" where
  "file_Write env f buf s =
     (case file_get s f of
        None \<Rightarrow> (Some ''invalid argument'', s)
      | Some x \<Rightarrow>
          if f_closed x then (Some ''file already closed'', s)
          else
            (case os_Write env s f buf of
               Some e \<Rightarrow> (Some e, s)
             | None \<Rightarrow> (None, file_put f (x\<lparr>f_data := f_data x @ [buf]\<rparr>) s)))"

text \<open>\<open>(*os.File).Close\<close>: an error, and no panic, on a handle already closed.\<close>

definition file_Close :: "file_ref \<Rightarrow> world \<Rightarrow> string option \<times> world" where
  "file_Close f s =
     (case file_get s f of
        None \<Rightarrow> (Some ''invalid argument'', s)
      | Some x \<Rightarrow>
          if f_closed x then (Some ''file already closed'', s)
          else (None, file_put f (x\<lparr>f_closed := True\<rparr>) s))"

text \<open>
  \<open>(*log.Logger).Output\<close>: reads the clock, writes the header, the text and a newline if
  the text does not end with one, in a single write; returns the error of that write.
\<close>

definition log_Output :: "'v env \<Rightarrow> log_Logger \<Rightarrow> string \<Rightarrow> world \<Rightarrow> string option \<times> world" where
  "log_Output env l str s =
     (let now = time_Now env (ticks s);
          s1 = s\<lparr>ticks := Suc (ticks s)\<rparr>;
          buf = formatHeader l now @ str @
                (if str = [] \<or> last str \<noteq> CHR 0x0A then [CHR 0x0A] else [])
      in file_Write env (lg_out l) buf s1)"

text \<open>
  \<open>(*log.Logger).Printf\<close> has no result: the error of \<open>Output\<close> is dropped. The argument
  here is the text already formatted.
\<close>

definition log_Printf :: "'v env \<Rightarrow> log_Logger \<Rightarrow> string \<Rightarrow> world \<Rightarrow> world" where
  "log_Printf env l str s = snd (log_Output env l str s)"

section \<open>The file backend (file.go)\<close>

text \<open>
  The value one pass of the loop over \<open>levelMap\<close> stores in \<open>fileLabels[level]\<close>, and the
  table the whole loop leaves, starting from the empty map literal.
\<close>

definition file_label :: "'v env \<Rightarrow> bool \<Rightarrow> string \<Rightarrow> int \<Rightarrow> string" where
  "file_label env useColors name level =
     (if useColors then ansi_Color env (ToUpper name) (index_map fileColors level)
      else ToUpper name @ '':'')"

definition init_labels :: "'v env \<Rightarrow> bool \<Rightarrow> (int \<rightharpoonup> string)" where
  "init_labels env useColors =
     fold (\<lambda>(name, level) m. m(level \<mapsto> file_label env useColors name level)) levelMap Map.empty"

text \<open>
  The first block of \<open>newFileBackend\<close>: the output and \<open>useColors\<close>, or the error it returns
  with. \<open>0755\<close> and \<open>0644\<close> are octal: 493 and 420.
\<close>

definition open_output :: "'v env \<Rightarrow> FileConfig \<Rightarrow> world \<Rightarrow> (error + file_ref \<times> bool) \<times> world" where
  "open_output env config s =
     (if Path config \<noteq> '''' \<and> Path config \<noteq> ''-'' then
        (let dirPath = fst (path_Split (Path config));
             s1 = s\<lparr>fs_calls := fs_calls s @ [MkdirAll dirPath 493]\<rparr>
         in case os_MkdirAll env s dirPath 493 of
              Some e \<Rightarrow> (Inl (OsError e), s1)
            | None \<Rightarrow>
                (let flags = {O_APPEND, O_CREATE, O_WRONLY};
                     s2 = s1\<lparr>fs_calls := fs_calls s1 @ [OpenFile (Path config) flags 420]\<rparr>
                 in case os_OpenFile env s1 (Path config) flags 420 of
                      Some e \<Rightarrow> (Inl (FmtError (''failed to open logging file: '' @ e)), s2)
                    | None \<Rightarrow>
                        (Inr (File (length (files s2)), False),
                         s2\<lparr>files := files s2 @
                              [\<lparr>f_path = Path config, f_closed = False, f_data = []\<rparr>]\<rparr>)))
      else (Inr (Stderr, True), s))"

text \<open>
  \<open>newFileBackend\<close>. The result is the error, or the address of the new backend object;
  the state returned is the one the call leaves in either case.
\<close>

definition newFileBackend :: "'v env \<Rightarrow> FileConfig \<Rightarrow> addr \<Rightarrow> world \<Rightarrow> (error + addr) \<times> world" where
  "newFileBackend env config lg s =
     (case open_output env config s of
        (Inl err, s1) \<Rightarrow> (Inl err, s1)
      | (Inr (out, useColors), s1) \<Rightarrow>
          (let w = log_New out '''' (LstdFlags OR Lmicroseconds);
               s2 = s1\<lparr>fileLabels := init_labels env useColors\<rparr>
           in (Inr (length (objs s2)),
               s2\<lparr>objs := objs s2 @ [FileBackend \<lparr>logger = lg, output' = out, writer = w\<rparr>]\<rparr>)))"

definition fileBackend_Close :: "fileBackend \<Rightarrow> world \<Rightarrow> world" where
  "fileBackend_Close b s = snd (file_Close (output' b) s)"

text \<open>
  \<open>fileBackend.Write\<close>. \<open>Printf\<close> with the verbs \<open>%s\<close> on strings is concatenation.
\<close>

definition fileBackend_Write ::
  "'v env \<Rightarrow> fileBackend \<Rightarrow> int \<Rightarrow> string \<Rightarrow> string \<Rightarrow> 'v list \<Rightarrow> world \<Rightarrow> world" where
  "fileBackend_Write env b level ctx format v s =
     (if ctx \<noteq> '''' then
        log_Printf env (writer b)
          (index_map (fileLabels s) level @ '' '' @ ctx @ '': '' @ Sprintf env format v) s
      else
        log_Printf env (writer b)
          (index_map (fileLabels s) level @ '' '' @ Sprintf env format v) s)"

section \<open>The backend interface (backend.go)\<close>

text \<open>
  Modelled from the spec: \<open>newSyslogBackend\<close> is in syslog.go, which is not among the
  sources. Whether it succeeds is the environment's choice; on success a backend object
  is allocated.
\<close>

definition newSyslogBackend ::
  "'v env \<Rightarrow> SyslogConfig \<Rightarrow> addr \<Rightarrow> world \<Rightarrow> (error + addr) \<times> world" where
  "newSyslogBackend env config lg s =
     (case syslog_New env s config of
        Some err \<Rightarrow> (Inl err, s)
      | None \<Rightarrow>
          (Inr (length (objs s)),
           s\<lparr>objs := objs s @ [SyslogBackend \<lparr>sl_logger = lg, sl_config = config\<rparr>]\<rparr>))"

text \<open>
  A call through the interface: \<open>None\<close> is the panic on a nil interface value. The call is
  recorded, then the method of the dynamic type runs.
\<close>

definition backend_Write ::
  "'v env \<Rightarrow> addr \<Rightarrow> int \<Rightarrow> string \<Rightarrow> string \<Rightarrow> 'v list \<Rightarrow> world \<Rightarrow> world option" where
  "backend_Write env b level ctx format v s =
     (if b < length (objs s) then
        (let s1 = s\<lparr>calls := calls s @ [BWrite b level ctx (Sprintf env format v)]\<rparr>
         in case objs s ! b of
              FileBackend fb \<Rightarrow> Some (fileBackend_Write env fb level ctx format v s1)
            | SyslogBackend sb \<Rightarrow> Some s1)
      else None)"

definition backend_Close :: "addr \<Rightarrow> world \<Rightarrow> world option" where
  "backend_Close b s =
     (if b < length (objs s) then
        (let s1 = s\<lparr>calls := calls s @ [BClose b]\<rparr>
         in case objs s ! b of
              FileBackend fb \<Rightarrow> Some (fileBackend_Close fb s1)
            | SyslogBackend sb \<Rightarrow> Some s1)
      else None)"

section \<open>The logger (logger.go)\<close>

text \<open>
  The body of the loop of \<open>NewLogger\<close> up to the test of \<open>err\<close>: the type switch.
\<close>

definition new_backend :: "'v env \<Rightarrow> config \<Rightarrow> addr \<Rightarrow> world \<Rightarrow> (error + addr) \<times> world" where
  "new_backend env cfg lg s =
     (case cfg of
        CFile c \<Rightarrow> newFileBackend env c lg s
      | CSyslog c \<Rightarrow> newSyslogBackend env c lg s
      | COther _ \<Rightarrow> (Inl ErrUnsupportedBackend, s))"

text \<open>
  The loop of \<open>NewLogger\<close> over the configurations, for the logger at address \<open>lg\<close>:
  the first error ends it with \<open>nil, err\<close>; otherwise the backend is appended.
\<close>

fun NewLogger_loop :: "'v env \<Rightarrow> addr \<Rightarrow> config list \<Rightarrow> world \<Rightarrow> (error + addr) \<times> world" where
  "NewLogger_loop env lg [] s = (Inr lg, s)"
| "NewLogger_loop env lg (cfg # rest) s =
     (case new_backend env cfg lg s of
        (Inl err, s1) \<Rightarrow> (Inl err, s1)
      | (Inr b, s1) \<Rightarrow>
          NewLogger_loop env lg rest
            (s1\<lparr>loggers := (loggers s1)
                 [lg := (loggers s1 ! lg)\<lparr>backends := backends (loggers s1 ! lg) @ [b]\<rparr>]\<rparr>))"

text \<open>
  \<open>NewLogger\<close>: \<open>Inl err\<close> is the result \<open>nil, err\<close>, \<open>Inr lg\<close> the result \<open>logger, nil\<close>. The
  Logger is allocated before the loop; after an error nothing refers to it.
\<close>

definition NewLogger :: "'v env \<Rightarrow> config list \<Rightarrow> world \<Rightarrow> (error + addr) \<times> world" where
  "NewLogger env configs s =
     NewLogger_loop env (length (loggers s)) configs
       (s\<lparr>loggers := loggers s @ [\<lparr>backends = [], context' = ''''\<rparr>]\<rparr>)"

text \<open>\<open>Logger.Context\<close>; \<open>None\<close> is the panic on a nil receiver.\<close>

definition Context :: "addr \<Rightarrow> string \<Rightarrow> world \<Rightarrow> (addr \<times> world) option" where
  "Context l ctx s =
     (if l < length (loggers s) then
        Some (length (loggers s),
              s\<lparr>loggers := loggers s @ [\<lparr>backends = backends (loggers s ! l), context' = ctx\<rparr>]\<rparr>)
      else None)"

text \<open>
  \<open>Logger.write\<close>. The source starts one goroutine per backend and waits for all of them;
  here the backends are written one after the other, in the order of the slice. The lock
  and the wait group have no counterpart in a sequential model.
\<close>

fun write_all ::
  "'v env \<Rightarrow> int \<Rightarrow> string \<Rightarrow> string \<Rightarrow> 'v list \<Rightarrow> addr list \<Rightarrow> world \<Rightarrow> world option" where
  "write_all env level ctx format v [] s = Some s"
| "write_all env level ctx format v (b # bs) s =
     (case backend_Write env b level ctx format v s of
        None \<Rightarrow> None
      | Some s1 \<Rightarrow> write_all env level ctx format v bs s1)"

definition Logger_write :: "'v env \<Rightarrow> addr \<Rightarrow> int \<Rightarrow> string \<Rightarrow> 'v list \<Rightarrow> world \<Rightarrow> world option" where
  "Logger_write env l level format v s =
     (if l < length (loggers s) then
        write_all env level (context' (loggers s ! l)) format v (backends (loggers s ! l)) s
      else None)"

text \<open>The five leveled methods return their receiver.\<close>

definition Error :: "'v env \<Rightarrow> addr \<Rightarrow> string \<Rightarrow> 'v list \<Rightarrow> world \<Rightarrow> (addr \<times> world) option" where
  "Error env l format v s = map_option (Pair l) (Logger_write env l LevelError format v s)"

definition Warning :: "'v env \<Rightarrow> addr \<Rightarrow> string \<Rightarrow> 'v list \<Rightarrow> world \<Rightarrow> (addr \<times> world) option" where
  "Warning env l format v s = map_option (Pair l) (Logger_write env l LevelWarning format v s)"

definition Notice :: "'v env \<Rightarrow> addr \<Rightarrow> string \<Rightarrow> 'v list \<Rightarrow> world \<Rightarrow> (addr \<times> world) option" where
  "Notice env l format v s = map_option (Pair l) (Logger_write env l LevelNotice format v s)"

definition Info :: "'v env \<Rightarrow> addr \<Rightarrow> string \<Rightarrow> 'v list \<Rightarrow> world \<Rightarrow> (addr \<times> world) option" where
  "Info env l format v s = map_option (Pair l) (Logger_write env l LevelInfo format v s)"

definition Debug :: "'v env \<Rightarrow> addr \<Rightarrow> string \<Rightarrow> 'v list \<Rightarrow> world \<Rightarrow> (addr \<times> world) option" where
  "Debug env l format v s = map_option (Pair l) (Logger_write env l LevelDebug format v s)"

text \<open>\<open>Logger.Close\<close>: the backends are closed in the order of the slice.\<close>

fun close_all :: "addr list \<Rightarrow> world \<Rightarrow> world option" where
  "close_all [] s = Some s"
| "close_all (b # bs) s =
     (case backend_Close b s of
        None \<Rightarrow> None
      | Some s1 \<Rightarrow> close_all bs s1)"

definition Close :: "addr \<Rightarrow> world \<Rightarrow> world option" where
  "Close l s =
     (if l < length (loggers s) then close_all (backends (loggers s ! l)) s else None)"

section \<open>Notions used to state the properties\<close>

text \<open>
  The header \<open>log\<close> writes for the flags \<open>LstdFlags|Lmicroseconds\<close>: date, time of day and
  six digits of microseconds.
\<close>

definition stamp :: "time \<Rightarrow> string" where
  "stamp t =
     itoa (year t) 4 @ ''/'' @ itoa (month t) 2 @ ''/'' @ itoa (day t) 2 @ '' '' @
     itoa (hour t) 2 @ '':'' @ itoa (minute t) 2 @ '':'' @ itoa (second t) 2 @
     ''.'' @ itoa (nanosecond t div 1000) 6 @ '' ''"

text \<open>
  The line of the spec, section 6: timestamp, level label, context and colon if there is
  a context, formatted message; the label is given with its colon or colour, and the line
  is ended by a newline unless the message brings its own.
\<close>

definition spec_line :: "time \<Rightarrow> string \<Rightarrow> string \<Rightarrow> string \<Rightarrow> string" where
  "spec_line t label ctx msg =
     stamp t @ label @ '' '' @ (if ctx = '''' then '''' else ctx @ '': '') @ msg @
     (if msg = [] \<or> last msg \<noteq> CHR 0x0A then [CHR 0x0A] else [])"

text \<open>The configuration asks for the console: no path, or the sentinel.\<close>

definition console :: "FileConfig \<Rightarrow> bool" where
  "console config \<longleftrightarrow> Path config = '''' \<or> Path config = ''-''"

text \<open>
  The two label tables of the spec: colour-coded names, and plain names with a colon.
\<close>

definition colored_labels :: "'v env \<Rightarrow> (int \<rightharpoonup> string)" where
  "colored_labels env =
     [LevelError \<mapsto> ansi_Color env ''ERROR'' ''red'',
      LevelWarning \<mapsto> ansi_Color env ''WARNING'' ''yellow'',
      LevelNotice \<mapsto> ansi_Color env ''NOTICE'' ''magenta'',
      LevelInfo \<mapsto> ansi_Color env ''INFO'' ''blue'',
      LevelDebug \<mapsto> ansi_Color env ''DEBUG'' ''cyan'']"

definition plain_labels :: "int \<rightharpoonup> string" where
  "plain_labels =
     [LevelError \<mapsto> ''ERROR:'',
      LevelWarning \<mapsto> ''WARNING:'',
      LevelNotice \<mapsto> ''NOTICE:'',
      LevelInfo \<mapsto> ''INFO:'',
      LevelDebug \<mapsto> ''DEBUG:'']"

text \<open>
  A constructed Logger: the pointer refers to a Logger, and every backend in its slice is a
  backend object. \<open>NewLogger\<close> and \<open>Context\<close> return such pointers, and no operation ends
  the life of one.
\<close>

definition wf_logger :: "world \<Rightarrow> addr \<Rightarrow> bool" where
  "wf_logger s l \<longleftrightarrow>
     l < length (loggers s) \<and> (\<forall>b \<in> set (backends (loggers s ! l)). b < length (objs s))"

text \<open>
  The handle can no longer be written to: the file it refers to is closed (or it refers
  to no file).
\<close>

definition file_closed :: "world \<Rightarrow> file_ref \<Rightarrow> bool" where
  "file_closed s f = (case file_get s f of None \<Rightarrow> True | Some x \<Rightarrow> f_closed x)"

section \<open>Concrete inputs\<close>

text \<open>
  A fresh process: no logger, no backend, the label table nil, standard error open.
\<close>

definition world0 :: world where
  "world0 =
     \<lparr>loggers = [], objs = [], fileLabels = Map.empty,
      stderr = \<lparr>f_path = ''/dev/stderr'', f_closed = False, f_data = []\<rparr>,
      files = [], fs_calls = [], calls = [], ticks = 0\<rparr>"

definition time0 :: time where
  "time0 = \<lparr>year = 2024, month = 5, day = 17, hour = 9, minute = 30, second = 7,
            nanosecond = 123456789\<rparr>"

text \<open>
  An environment in which every system call succeeds, \<open>Sprintf\<close> returns its format (the
  examples pass no arguments and no verbs) and \<open>ansi.Color\<close> wraps the text in brackets
  tagged with the colour name.
\<close>

definition env0 :: "unit env" where
  "env0 =
     \<lparr>ansi_Color = (\<lambda>s c. ''['' @ c @ '']'' @ s @ ''[/]''),
      Sprintf = (\<lambda>format v. format),
      os_MkdirAll = (\<lambda>s p m. None),
      os_OpenFile = (\<lambda>s p fl m. None),
      os_Write = (\<lambda>s f b. None),
      syslog_New = (\<lambda>s c. None),
      time_Now = (\<lambda>n. time0)\<rparr>"

text \<open>
  Environments like \<open>env0\<close> in which the directory \<open>/dev/null/logs/\<close> cannot be made, in
  which every write fails (the disk is full), and in which no file can be opened.
\<close>

definition env1 :: "unit env" where
  "env1 =
     env0\<lparr>os_MkdirAll :=
       (\<lambda>s p m. if p = ''/dev/null/logs/'' then Some ''mkdir /dev/null: not a directory''
                else None)\<rparr>"

definition env2 :: "unit env" where
  "env2 = env0\<lparr>os_Write := (\<lambda>s f b. Some ''no space left on device'')\<rparr>"

definition env3 :: "unit env" where
  "env3 = env0\<lparr>os_OpenFile := (\<lambda>s p fl m. Some ''permission denied'')\<rparr>"

text \<open>
  Configurations: the console at level "warning" (the example of the spec), the console
  with a level name that is none of the five, a log file, and a log file below a
  directory that cannot be made.
\<close>

definition cfg_warning :: FileConfig where
  "cfg_warning = \<lparr>Path = ''-'', Level = ''warning''\<rparr>"

definition cfg_bogus :: FileConfig where
  "cfg_bogus = \<lparr>Path = ''-'', Level = ''bogus''\<rparr>"

definition cfg_file :: FileConfig where
  "cfg_file = \<lparr>Path = ''/var/log/app.log'', Level = ''info''\<rparr>"

definition cfg_unwritable :: FileConfig where
  "cfg_unwritable = \<lparr>Path = ''/dev/null/logs/app.log'', Level = ''info''\<rparr>"

text \<open>
  States, each reached in a fresh process: after \<open>NewLogger\<close> on the console, on the log
  file, on the log file followed by the console, and on the console followed by the log
  file.
\<close>

definition world1 :: world where
  "world1 = snd (NewLogger env0 [CFile cfg_warning] world0)"

definition world_file :: world where
  "world_file = snd (NewLogger env0 [CFile cfg_file] world0)"

definition world2 :: world where
  "world2 = snd (NewLogger env0 [CFile cfg_file, CFile cfg_warning] world0)"

definition world3 :: world where
  "world3 = snd (NewLogger env0 [CFile cfg_warning, CFile cfg_file] world0)"

text \<open>
  The state after \<open>newFileBackend\<close> on the log file in a fresh process, the state after
  \<open>newFileBackend\<close> on the console in that state, and the backend object made for the log
  file.
\<close>

definition world_a :: world where
  "world_a = snd (newFileBackend env0 cfg_file 0 world0)"

definition world_b :: world where
  "world_b = snd (newFileBackend env0 cfg_warning 0 world_a)"

definition fb_file :: fileBackend where
  "fb_file = \<lparr>logger = 0, output' = File 0,
               writer = log_New (File 0) '''' (LstdFlags OR Lmicroseconds)\<rparr>"

section \<open>The library model and the constructors\<close>

lemma ToUpper_names:
  "ToUpper ''error'' = ''ERROR''" "ToUpper ''warning'' = ''WARNING''"
  "ToUpper ''notice'' = ''NOTICE''" "ToUpper ''info'' = ''INFO''" "ToUpper ''debug'' = ''DEBUG''"
  by code_simp+

lemmas level_defs = LevelError_def LevelWarning_def LevelNotice_def LevelInfo_def LevelDebug_def
  levelError_def levelWarning_def levelNotice_def levelInfo_def levelDebug_def

lemma init_labels_eq:
  "init_labels env u =
     [1 \<mapsto> (if u then ansi_Color env ''ERROR'' ''red'' else ''ERROR:''),
      2 \<mapsto> (if u then ansi_Color env ''WARNING'' ''yellow'' else ''WARNING:''),
      3 \<mapsto> (if u then ansi_Color env ''NOTICE'' ''magenta'' else ''NOTICE:''),
      4 \<mapsto> (if u then ansi_Color env ''INFO'' ''blue'' else ''INFO:''),
      5 \<mapsto> (if u then ansi_Color env ''DEBUG'' ''cyan'' else ''DEBUG:'')]"
  by (simp add: init_labels_def levelMap_def file_label_def ToUpper_names index_map_def
      fileColors_def level_defs)

lemma init_labels_level:
  "(name, level) \<in> set levelMap \<Longrightarrow>
   index_map (init_labels env u) level = file_label env u name level"
  by (auto simp add: init_labels_eq index_map_def levelMap_def file_label_def ToUpper_names
      fileColors_def level_defs)

lemma flags_std_micro: "LstdFlags OR Lmicroseconds = 7"
  by (simp add: LstdFlags_def Ldate_def Ltime_def Lmicroseconds_def)

lemma formatHeader_std_micro:
  "formatHeader (log_New out '''' (LstdFlags OR Lmicroseconds)) t = stamp t"
  by (simp add: formatHeader_def log_New_def stamp_def LstdFlags_def Ldate_def Ltime_def
      Lmicroseconds_def)

lemma log_Output_line:
  assumes "l = log_New out '''' (LstdFlags OR Lmicroseconds)"
  shows "log_Output env l (label @ '' '' @ (if ctx = '''' then '''' else ctx @ '': '') @ msg) s =
         file_Write env out (spec_line (time_Now env (ticks s)) label ctx msg)
           (s\<lparr>ticks := Suc (ticks s)\<rparr>)"
  unfolding assms log_Output_def Let_def formatHeader_std_micro spec_line_def
  by (simp add: log_New_def)

lemma fileBackend_Write_eq:
  assumes "writer b = log_New (output' b) '''' (LstdFlags OR Lmicroseconds)"
  shows "fileBackend_Write env b level ctx format v s =
         snd (file_Write env (output' b)
                (spec_line (time_Now env (ticks s)) (index_map (fileLabels s) level) ctx
                   (Sprintf env format v))
                (s\<lparr>ticks := Suc (ticks s)\<rparr>))"
proof (cases "ctx = []")
  case True
  with log_Output_line [OF assms, of env "index_map (fileLabels s) level" "[]"
      "Sprintf env format v" s]
  show ?thesis by (simp add: fileBackend_Write_def log_Printf_def)
next
  case False
  with log_Output_line [OF assms, of env "index_map (fileLabels s) level" ctx
      "Sprintf env format v" s]
  show ?thesis by (simp add: fileBackend_Write_def log_Printf_def)
qed

lemma open_output_Inr:
  assumes "open_output env config s = (Inr (out, u), s1)"
  shows "u = console config \<and> objs s1 = objs s \<and> loggers s1 = loggers s \<and>
         fileLabels s1 = fileLabels s \<and> calls s1 = calls s \<and> stderr s1 = stderr s \<and>
         ticks s1 = ticks s"
  using assms
  by (auto simp add: open_output_def console_def Let_def split: if_splits option.splits)

lemma open_output_Inl:
  assumes "open_output env config s = (Inl e, s1)"
  shows "objs s1 = objs s \<and> loggers s1 = loggers s \<and> fileLabels s1 = fileLabels s \<and>
         files s1 = files s"
  using assms
  by (auto simp add: open_output_def Let_def split: if_splits option.splits)

lemma newFileBackend_Inr:
  assumes "newFileBackend env config lg s = (Inr b, s')"
  shows "b = length (objs s) \<and> loggers s' = loggers s \<and>
         fileLabels s' = init_labels env (console config) \<and>
         (\<exists>out. objs s' = objs s @
            [FileBackend \<lparr>logger = lg, output' = out,
               writer = log_New out '''' (LstdFlags OR Lmicroseconds)\<rparr>])"
proof -
  from assms obtain out u s1 where o: "open_output env config s = (Inr (out, u), s1)"
    by (auto simp add: newFileBackend_def split: prod.splits sum.splits)
  from open_output_Inr [OF o] assms o show ?thesis
    by (auto simp add: newFileBackend_def Let_def)
qed

lemma newFileBackend_Inl:
  assumes "newFileBackend env config lg s = (Inl e, s')"
  shows "objs s' = objs s \<and> loggers s' = loggers s \<and> fileLabels s' = fileLabels s"
proof -
  from assms have o: "open_output env config s = (Inl e, s')"
    by (auto simp add: newFileBackend_def Let_def split: prod.splits sum.splits)
  from open_output_Inl [OF o] show ?thesis by simp
qed

lemma new_backend_Inr:
  assumes "new_backend env cfg lg s = (Inr b, s')"
  shows "b = length (objs s) \<and> loggers s' = loggers s \<and> (\<exists>x. objs s' = objs s @ [x])"
proof (cases cfg)
  case (CFile c)
  with assms have "newFileBackend env c lg s = (Inr b, s')" by (simp add: new_backend_def)
  from newFileBackend_Inr [OF this] show ?thesis by auto
next
  case (CSyslog c)
  with assms show ?thesis
    by (auto simp add: new_backend_def newSyslogBackend_def split: option.splits)
next
  case (COther t)
  with assms show ?thesis by (simp add: new_backend_def)
qed

lemma new_backend_Inl:
  assumes "new_backend env cfg lg s = (Inl e, s')"
  shows "objs s' = objs s \<and> loggers s' = loggers s"
proof (cases cfg)
  case (CFile c)
  with assms have "newFileBackend env c lg s = (Inl e, s')" by (simp add: new_backend_def)
  from newFileBackend_Inl [OF this] show ?thesis by auto
next
  case (CSyslog c)
  with assms show ?thesis
    by (auto simp add: new_backend_def newSyslogBackend_def split: option.splits)
next
  case (COther t)
  with assms show ?thesis by (auto simp add: new_backend_def)
qed

lemmas eval_defs = NewLogger_def new_backend_def newFileBackend_def open_output_def
  world0_def env0_def Let_def init_labels_eq log_New_def flags_std_micro
  Logger_write_def backend_Write_def fileBackend_Write_def log_Printf_def log_Output_def
  file_Write_def file_get_def file_put_def index_map_def formatHeader_def
  Ldate_def Ltime_def Lmicroseconds_def time0_def itoa.simps digit_def level_defs

lemma world1_eq:
  "world1 =
     \<lparr>loggers = [\<lparr>backends = [0], context' = ''''\<rparr>],
      objs = [FileBackend \<lparr>logger = 0, output' = Stderr,
                writer = \<lparr>lg_out = Stderr, lg_prefix = '''', lg_flag = 7\<rparr>\<rparr>],
      fileLabels = init_labels env0 True,
      stderr = \<lparr>f_path = ''/dev/stderr'', f_closed = False, f_data = []\<rparr>,
      files = [], fs_calls = [], calls = [], ticks = 0\<rparr>"
  by (simp add: world1_def cfg_warning_def NewLogger_def new_backend_def newFileBackend_def
      open_output_def world0_def Let_def log_New_def flags_std_micro)

section \<open>Level filtering and level names\<close>

text \<open>
  C1. The claim: a message is emitted by a backend if and only if its level is at most the
  backend's threshold; a logger with a console backend at "warning" prints nothing on
  \<open>Debug\<close>. Neither \<open>Logger.write\<close> nor \<open>fileBackend.Write\<close> compares the level with anything,
  and \<open>newFileBackend\<close> never reads the level of its configuration. The earlier versions
  of the logger under src/unnamed do compare (\<open>if level > l.level\<close> and
  \<open>if level > logLevel\<close>, each returning before it prints) and document it: messages with
  severity higher than the level are discarded. The code at the example of the spec: the
  logger is built from the console configuration at "warning" in a fresh process, and
  \<open>Debug("x")\<close> writes one line to standard error.
\<close>

theorem Debug_at_warning_is_written:
  "Debug env0 0 ''x'' [] world1 =
     Some (0, world1
       \<lparr>stderr := \<lparr>f_path = ''/dev/stderr'', f_closed = False,
                   f_data = [''2024/05/17 09:30:07.123456 [cyan]DEBUG[/] x'' @ [CHR 0x0A]]\<rparr>,
        calls := [BWrite 0 LevelDebug '''' ''x''],
        ticks := 1\<rparr>)"
  by (simp add: world1_eq Debug_def eval_defs)

text \<open>
  C2. The claim: a level name that is none of the five makes construction fail with
  \<open>ErrInvalidLevel\<close>. \<open>newFileBackend\<close> never looks the name up, although \<open>levelMap\<close> and
  \<open>ErrInvalidLevel\<close> are declared for it and the earlier versions under src/unnamed return
  \<open>ErrInvalidLevel\<close> for a name that is not in \<open>levelMap\<close>: with the name "bogus"
  \<open>NewLogger\<close> returns a logger and no error.
\<close>

theorem NewLogger_bogus_level_succeeds:
  "fst (NewLogger env0 [CFile cfg_bogus] world0) = Inr 0"
  by (simp add: cfg_bogus_def NewLogger_def new_backend_def newFileBackend_def
      open_output_def world0_def Let_def)

section \<open>Context\<close>

text \<open>
  C4. For every Logger \<open>l\<close> and every string \<open>ctx\<close>, \<open>Context\<close> returns a new Logger (a fresh
  address, different from \<open>l\<close>) whose backend list is the list of \<open>l\<close>, with the same
  references to the same backend objects, and whose context is \<open>ctx\<close>. No backend object is
  made or changed, and \<open>l\<close> and every other Logger are as they were.
\<close>

theorem Context_shares_backends:
  assumes "l < length (loggers s)"
  shows "\<exists>l' s'. Context l ctx s = Some (l', s') \<and> l' \<noteq> l \<and> l' = length (loggers s) \<and>
           backends (loggers s' ! l') = backends (loggers s ! l) \<and>
           context' (loggers s' ! l') = ctx \<and>
           objs s' = objs s \<and>
           loggers s' ! l = loggers s ! l \<and>
           take (length (loggers s)) (loggers s') = loggers s"
  using assms by (simp add: Context_def nth_append)

theorem Context_shares_backends_witness:
  "0 < length (loggers world1) \<and>
   (\<exists>l' s'. Context 0 ''request-7'' world1 = Some (l', s') \<and> l' \<noteq> 0 \<and>
      l' = length (loggers world1) \<and>
      backends (loggers s' ! l') = backends (loggers world1 ! 0) \<and>
      context' (loggers s' ! l') = ''request-7'' \<and>
      objs s' = objs world1 \<and>
      loggers s' ! 0 = loggers world1 ! 0 \<and>
      take (length (loggers world1)) (loggers s') = loggers world1)"
proof -
  have h: "0 < length (loggers world1)" by (simp add: world1_eq)
  from Context_shares_backends [OF h, of "''request-7''"] h show ?thesis by blast
qed

section \<open>Construction\<close>

lemma NewLogger_loop_append:
  "NewLogger_loop env lg (pre @ rest) s =
     (case NewLogger_loop env lg pre s of
        (Inl e, s1) \<Rightarrow> (Inl e, s1)
      | (Inr l, s1) \<Rightarrow> NewLogger_loop env lg rest s1)"
  by (induction pre arbitrary: s) (auto split: prod.splits sum.splits)

lemma NewLogger_loop_Inr:
  "NewLogger_loop env lg cfgs s = (Inr l, s') \<Longrightarrow> l = lg"
  by (induction cfgs arbitrary: s) (auto split: prod.splits sum.splits)

lemma NewLogger_loop_COther:
  "COther t \<in> set cfgs \<Longrightarrow> \<exists>e. fst (NewLogger_loop env lg cfgs s) = Inl e"
proof (induction cfgs arbitrary: s)
  case Nil
  then show ?case by simp
next
  case (Cons c cfgs)
  show ?case
  proof (cases "new_backend env c lg s")
    case (Pair r s1)
    show ?thesis
    proof (cases r)
      case (Inl e)
      with Pair show ?thesis by simp
    next
      case (Inr b)
      with Pair Cons.prems have "COther t \<in> set cfgs"
        by (auto simp add: new_backend_def)
      from Cons.IH [OF this] Pair Inr show ?thesis by simp
    qed
  qed
qed

lemma NewLogger_loop_first_failure:
  assumes "NewLogger_loop env lg pre s = (Inr l, s1)"
      and "fst (new_backend env c l s1) = Inl e"
  shows "fst (NewLogger_loop env lg (pre @ c # rest) s) = Inl e"
proof -
  from NewLogger_loop_Inr [OF assms(1)] have "l = lg" .
  with assms show ?thesis
    by (cases "new_backend env c lg s1") (simp add: NewLogger_loop_append)
qed

text \<open>
  C3, as stated: every configuration of an unrecognised type makes \<open>NewLogger\<close> fail with
  \<open>ErrUnsupportedBackend\<close>. The loop returns at the first error: with a file configuration
  whose directory cannot be made in front of a value of another type, the error returned is
  the one of \<open>os.MkdirAll\<close>.
\<close>

theorem NewLogger_first_error_counterexample:
  "fst (NewLogger env1 [CFile cfg_unwritable, COther ''int''] world0) =
     Inl (OsError ''mkdir /dev/null: not a directory'') \<and>
   fst (NewLogger env1 [CFile cfg_unwritable, COther ''int''] world0) \<noteq>
     Inl ErrUnsupportedBackend"
  by (simp add: NewLogger_def new_backend_def newFileBackend_def open_output_def
      cfg_unwritable_def env1_def env0_def world0_def path_Split_def Let_def)

text \<open>
  C3, amended. \<open>NewLogger\<close> returns the error of the first configuration whose backend
  cannot be constructed, and no Logger:
  \<^item> a configuration that is neither a file nor a syslog configuration, anywhere in the
    sequence, makes \<open>NewLogger\<close> return an error;
  \<^item> when the configurations before it construct successfully, that error is
    \<open>ErrUnsupportedBackend\<close>;
  \<^item> when the configurations before some configuration construct successfully and its
    own construction fails with \<open>e\<close>, \<open>NewLogger\<close> returns \<open>e\<close>, whatever follows.
  The result \<open>Inl e\<close> is the pair \<open>nil, e\<close> of the source: there is no partial Logger.
\<close>

theorem NewLogger_fail_fast:
  "(COther t \<in> set configs \<longrightarrow> (\<exists>e. fst (NewLogger env configs s) = Inl e)) \<and>
   (fst (NewLogger env pre s) = Inr l \<longrightarrow>
      fst (NewLogger env (pre @ COther t # rest) s) = Inl ErrUnsupportedBackend) \<and>
   (NewLogger env pre s = (Inr l, s1) \<and> fst (new_backend env c l s1) = Inl e \<longrightarrow>
      fst (NewLogger env (pre @ c # rest) s) = Inl e)"
proof (intro conjI impI)
  assume "COther t \<in> set configs"
  from NewLogger_loop_COther [OF this] show "\<exists>e. fst (NewLogger env configs s) = Inl e"
    by (simp add: NewLogger_def)
next
  assume a: "fst (NewLogger env pre s) = Inr l"
  obtain s1 where "NewLogger env pre s = (Inr l, s1)"
    using a by (cases "NewLogger env pre s") simp
  then have "NewLogger_loop env (length (loggers s)) pre
               (s\<lparr>loggers := loggers s @ [\<lparr>backends = [], context' = ''''\<rparr>]\<rparr>) = (Inr l, s1)"
    by (simp add: NewLogger_def)
  from NewLogger_loop_first_failure [OF this, of "COther t" ErrUnsupportedBackend rest]
  show "fst (NewLogger env (pre @ COther t # rest) s) = Inl ErrUnsupportedBackend"
    by (simp add: NewLogger_def new_backend_def)
next
  assume a: "NewLogger env pre s = (Inr l, s1) \<and> fst (new_backend env c l s1) = Inl e"
  then have "NewLogger_loop env (length (loggers s)) pre
               (s\<lparr>loggers := loggers s @ [\<lparr>backends = [], context' = ''''\<rparr>]\<rparr>) = (Inr l, s1)"
    by (simp add: NewLogger_def)
  from NewLogger_loop_first_failure [OF this, of c e rest] a
  show "fst (NewLogger env (pre @ c # rest) s) = Inl e"
    by (simp add: NewLogger_def)
qed

lemma NewLogger_world1: "NewLogger env0 [CFile cfg_warning] world0 = (Inr 0, world1)"
  by (simp add: world1_def cfg_warning_def NewLogger_def new_backend_def newFileBackend_def
      open_output_def world0_def Let_def)

theorem NewLogger_fail_fast_witness:
  "COther ''int'' \<in> set [CFile cfg_warning, COther ''int'', CFile cfg_file] \<and>
   (\<exists>e. fst (NewLogger env0 [CFile cfg_warning, COther ''int'', CFile cfg_file] world0) = Inl e) \<and>
   fst (NewLogger env0 [CFile cfg_warning] world0) = Inr 0 \<and>
   fst (NewLogger env0 ([CFile cfg_warning] @ COther ''int'' # [CFile cfg_file]) world0) =
     Inl ErrUnsupportedBackend \<and>
   NewLogger env0 [CFile cfg_warning] world0 = (Inr 0, world1) \<and>
   fst (new_backend env0 (COther ''int'') 0 world1) = Inl ErrUnsupportedBackend \<and>
   fst (NewLogger env0 ([CFile cfg_warning] @ COther ''int'' # []) world0) =
     Inl ErrUnsupportedBackend"
proof -
  have h1: "COther ''int'' \<in> set [CFile cfg_warning, COther ''int'', CFile cfg_file]" by simp
  have h2: "fst (NewLogger env0 [CFile cfg_warning] world0) = Inr 0"
    by (simp add: NewLogger_world1)
  have h3: "NewLogger env0 [CFile cfg_warning] world0 = (Inr 0, world1) \<and>
            fst (new_backend env0 (COther ''int'') 0 world1) = Inl ErrUnsupportedBackend"
    by (simp add: NewLogger_world1 new_backend_def)
  note T = NewLogger_fail_fast [of "''int''" "[CFile cfg_warning, COther ''int'', CFile cfg_file]"
      env0 world0 "[CFile cfg_warning]" 0 "[CFile cfg_file]" world1 "COther ''int''"
      ErrUnsupportedBackend]
  from T h1 have c1: "\<exists>e. fst (NewLogger env0 [CFile cfg_warning, COther ''int'', CFile cfg_file] world0) = Inl e"
    by blast
  from T h2 have c2: "fst (NewLogger env0 ([CFile cfg_warning] @ COther ''int'' # [CFile cfg_file]) world0) =
     Inl ErrUnsupportedBackend" by blast
  note T' = NewLogger_fail_fast [of "''int''" "[CFile cfg_warning, COther ''int'', CFile cfg_file]"
      env0 world0 "[CFile cfg_warning]" 0 "[]" world1 "COther ''int''"
      ErrUnsupportedBackend]
  from T' h3 have c3: "fst (NewLogger env0 ([CFile cfg_warning] @ COther ''int'' # []) world0) =
     Inl ErrUnsupportedBackend" by blast
  from h1 h2 h3 c1 c2 c3 show ?thesis by blast
qed

section \<open>Writing and closing: what stays as it is\<close>

lemma file_Write_frame:
  "objs (snd (file_Write env f buf s)) = objs s \<and>
   loggers (snd (file_Write env f buf s)) = loggers s \<and>
   fileLabels (snd (file_Write env f buf s)) = fileLabels s \<and>
   calls (snd (file_Write env f buf s)) = calls s \<and>
   fs_calls (snd (file_Write env f buf s)) = fs_calls s \<and>
   ticks (snd (file_Write env f buf s)) = ticks s"
  by (simp add: file_Write_def file_put_def split: option.splits file_ref.splits)

lemma file_Close_frame:
  "objs (snd (file_Close f s)) = objs s \<and>
   loggers (snd (file_Close f s)) = loggers s \<and>
   fileLabels (snd (file_Close f s)) = fileLabels s \<and>
   calls (snd (file_Close f s)) = calls s"
  by (simp add: file_Close_def file_put_def split: option.splits file_ref.splits)

lemma file_Close_closes: "file_closed (snd (file_Close f s)) f"
  by (cases f)
     (auto simp add: file_closed_def file_Close_def file_get_def file_put_def
       split: option.splits if_splits)

lemma file_Close_keeps_closed:
  "file_closed s g \<Longrightarrow> file_closed (snd (file_Close f s)) g"
  by (cases f; cases g)
     (auto simp add: file_closed_def file_Close_def file_get_def file_put_def nth_list_update
       split: option.splits if_splits)

lemma file_closed_cong:
  "stderr s' = stderr s \<Longrightarrow> files s' = files s \<Longrightarrow> file_closed s' g = file_closed s g"
  by (cases g) (simp_all add: file_closed_def file_get_def)

lemma fileBackend_Write_frame:
  "objs (fileBackend_Write env fb level ctx format v s) = objs s \<and>
   loggers (fileBackend_Write env fb level ctx format v s) = loggers s \<and>
   fileLabels (fileBackend_Write env fb level ctx format v s) = fileLabels s \<and>
   calls (fileBackend_Write env fb level ctx format v s) = calls s"
  by (simp add: fileBackend_Write_def log_Printf_def log_Output_def Let_def file_Write_frame)

lemma backend_Write_ok:
  assumes "b < length (objs s)"
  shows "\<exists>s'. backend_Write env b level ctx format v s = Some s' \<and>
           objs s' = objs s \<and> loggers s' = loggers s \<and> fileLabels s' = fileLabels s \<and>
           calls s' = calls s @ [BWrite b level ctx (Sprintf env format v)]"
  using assms
  by (cases "objs s ! b") (simp_all add: backend_Write_def Let_def fileBackend_Write_frame)

lemma write_all_ok:
  "\<forall>b \<in> set bs. b < length (objs s) \<Longrightarrow>
   \<exists>s'. write_all env level ctx format v bs s = Some s' \<and>
        objs s' = objs s \<and> loggers s' = loggers s \<and> fileLabels s' = fileLabels s \<and>
        calls s' = calls s @ map (\<lambda>b. BWrite b level ctx (Sprintf env format v)) bs"
proof (induction bs arbitrary: s)
  case Nil
  then show ?case by simp
next
  case (Cons b bs)
  then have "b < length (objs s)" by simp
  from backend_Write_ok [OF this, of env level ctx format v]
  obtain s1 where s1: "backend_Write env b level ctx format v s = Some s1"
    "objs s1 = objs s" "loggers s1 = loggers s" "fileLabels s1 = fileLabels s"
    "calls s1 = calls s @ [BWrite b level ctx (Sprintf env format v)]"
    by blast
  from Cons.prems s1 have "\<forall>b \<in> set bs. b < length (objs s1)" by simp
  from Cons.IH [OF this] s1 show ?case by auto
qed

lemma Logger_write_ok:
  assumes "wf_logger s l"
  shows "\<exists>s'. Logger_write env l level format v s = Some s' \<and>
           objs s' = objs s \<and> loggers s' = loggers s \<and> fileLabels s' = fileLabels s \<and>
           calls s' = calls s @
             map (\<lambda>b. BWrite b level (context' (loggers s ! l)) (Sprintf env format v))
               (backends (loggers s ! l))"
proof -
  from assms have "\<forall>b \<in> set (backends (loggers s ! l)). b < length (objs s)"
    by (simp add: wf_logger_def)
  from write_all_ok [OF this] assms show ?thesis
    by (simp add: Logger_write_def wf_logger_def)
qed

lemma backend_Close_ok:
  assumes "b < length (objs s)"
  shows "\<exists>s'. backend_Close b s = Some s' \<and>
           objs s' = objs s \<and> loggers s' = loggers s \<and> fileLabels s' = fileLabels s \<and>
           calls s' = calls s @ [BClose b] \<and>
           (\<forall>g. file_closed s g \<longrightarrow> file_closed s' g) \<and>
           (\<forall>fb. objs s ! b = FileBackend fb \<longrightarrow> file_closed s' (output' fb))"
proof (cases "objs s ! b")
  case (FileBackend fb)
  let ?s1 = "s\<lparr>calls := calls s @ [BClose b]\<rparr>"
  have eq: "backend_Close b s = Some (snd (file_Close (output' fb) ?s1))"
    using assms FileBackend by (simp add: backend_Close_def fileBackend_Close_def)
  have fr: "objs ?s1 = objs s" "loggers ?s1 = loggers s" "fileLabels ?s1 = fileLabels s"
    "calls ?s1 = calls s @ [BClose b]"
    by simp_all
  have keep: "file_closed (snd (file_Close (output' fb) ?s1)) g" if "file_closed s g" for g
  proof (rule file_Close_keeps_closed)
    from that show "file_closed ?s1 g" using file_closed_cong [of ?s1 s g] by simp
  qed
  show ?thesis
    unfolding eq
    using FileBackend file_Close_frame [of "output' fb" ?s1]
      file_Close_closes [of "output' fb" ?s1] keep fr
    by simp
next
  case (SyslogBackend sb)
  with assms file_closed_cong [of "s\<lparr>calls := calls s @ [BClose b]\<rparr>" s] show ?thesis
    by (simp add: backend_Close_def)
qed

lemma close_all_ok:
  "\<forall>b \<in> set bs. b < length (objs s) \<Longrightarrow>
   \<exists>s'. close_all bs s = Some s' \<and>
        objs s' = objs s \<and> loggers s' = loggers s \<and> fileLabels s' = fileLabels s \<and>
        calls s' = calls s @ map BClose bs \<and>
        (\<forall>g. file_closed s g \<longrightarrow> file_closed s' g) \<and>
        (\<forall>b \<in> set bs. \<forall>fb. objs s ! b = FileBackend fb \<longrightarrow> file_closed s' (output' fb))"
proof (induction bs arbitrary: s)
  case Nil
  then show ?case by simp
next
  case (Cons b bs)
  then have "b < length (objs s)" by simp
  from backend_Close_ok [OF this]
  obtain s1 where s1: "backend_Close b s = Some s1"
    "objs s1 = objs s" "loggers s1 = loggers s" "fileLabels s1 = fileLabels s"
    "calls s1 = calls s @ [BClose b]"
    "\<forall>g. file_closed s g \<longrightarrow> file_closed s1 g"
    "\<forall>fb. objs s ! b = FileBackend fb \<longrightarrow> file_closed s1 (output' fb)"
    by blast
  from Cons.prems s1 have "\<forall>b \<in> set bs. b < length (objs s1)" by simp
  from Cons.IH [OF this]
  obtain s2 where s2: "close_all bs s1 = Some s2"
    "objs s2 = objs s1" "loggers s2 = loggers s1" "fileLabels s2 = fileLabels s1"
    "calls s2 = calls s1 @ map BClose bs"
    "\<forall>g. file_closed s1 g \<longrightarrow> file_closed s2 g"
    "\<forall>b \<in> set bs. \<forall>fb. objs s1 ! b = FileBackend fb \<longrightarrow> file_closed s2 (output' fb)"
    by blast
  from s1 s2 show ?case by auto
qed

lemma wf_logger_cong:
  "wf_logger s l \<Longrightarrow> objs s' = objs s \<Longrightarrow> loggers s' = loggers s \<Longrightarrow> wf_logger s' l"
  by (simp add: wf_logger_def)

section \<open>Constructed loggers\<close>

lemma NewLogger_loop_wf:
  "NewLogger_loop env lg cfgs s = (Inr l, s') \<Longrightarrow> wf_logger s lg \<Longrightarrow>
   wf_logger s' lg \<and> length (loggers s') = length (loggers s) \<and>
   (\<forall>k. k \<noteq> lg \<longrightarrow> loggers s' ! k = loggers s ! k) \<and>
   take (length (objs s)) (objs s') = objs s"
proof (induction cfgs arbitrary: s)
  case Nil
  then show ?case by simp
next
  case (Cons c cfgs)
  from Cons.prems(1) obtain b s1 where nb: "new_backend env c lg s = (Inr b, s1)"
    by (auto split: prod.splits sum.splits)
  let ?s2 = "s1\<lparr>loggers := (loggers s1)
                 [lg := (loggers s1 ! lg)\<lparr>backends := backends (loggers s1 ! lg) @ [b]\<rparr>]\<rparr>"
  from Cons.prems(1) nb have rest: "NewLogger_loop env lg cfgs ?s2 = (Inr l, s')" by simp
  from new_backend_Inr [OF nb] obtain x where
    f: "b = length (objs s)" "loggers s1 = loggers s" "objs s1 = objs s @ [x]" by blast
  from Cons.prems(2) f have wf2: "wf_logger ?s2 lg"
    by (auto simp add: wf_logger_def less_Suc_eq)
  from Cons.IH [OF rest wf2]
  have ih: "wf_logger s' lg" "length (loggers s') = length (loggers ?s2)"
    "\<forall>k. k \<noteq> lg \<longrightarrow> loggers s' ! k = loggers ?s2 ! k"
    "take (length (objs ?s2)) (objs s') = objs ?s2"
    by simp_all
  have len: "length (loggers s') = length (loggers s)"
    using ih(2) f(2) by simp
  have others: "\<forall>k. k \<noteq> lg \<longrightarrow> loggers s' ! k = loggers s ! k"
    using ih(3) f(2) by simp
  have "take (length (objs s)) (objs s') =
        take (length (objs s)) (take (length (objs ?s2)) (objs s'))"
    using f(3) by (simp add: min_def)
  also have "\<dots> = take (length (objs s)) (objs s @ [x])"
    using ih(4) f(3) by simp
  also have "\<dots> = objs s" by simp
  finally have "take (length (objs s)) (objs s') = objs s" .
  with ih(1) len others show ?case by simp
qed

lemma NewLogger_wf:
  assumes "NewLogger env configs s = (Inr l, s')"
  shows "l = length (loggers s) \<and> wf_logger s' l \<and>
         take (length (loggers s)) (loggers s') = loggers s \<and>
         take (length (objs s)) (objs s') = objs s"
proof -
  let ?s0 = "s\<lparr>loggers := loggers s @ [\<lparr>backends = [], context' = ''''\<rparr>]\<rparr>"
  from assms have lp: "NewLogger_loop env (length (loggers s)) configs ?s0 = (Inr l, s')"
    by (simp add: NewLogger_def)
  have wf0: "wf_logger ?s0 (length (loggers s))" by (simp add: wf_logger_def)
  from NewLogger_loop_wf [OF lp wf0] NewLogger_loop_Inr [OF lp]
  have a: "l = length (loggers s)" "wf_logger s' l"
    "length (loggers s') = Suc (length (loggers s))"
    "\<forall>k. k \<noteq> length (loggers s) \<longrightarrow> loggers s' ! k = (loggers s @ [\<lparr>backends = [], context' = ''''\<rparr>]) ! k"
    "take (length (objs s)) (objs s') = objs s"
    by simp_all
  have "take (length (loggers s)) (loggers s') = loggers s"
    using a(3,4) by (intro nth_equalityI) (auto simp add: nth_append)
  with a show ?thesis by simp
qed

lemma Context_wf:
  assumes "wf_logger s l" and "Context l ctx s = Some (l', s')"
  shows "wf_logger s' l' \<and> wf_logger s' l"
  using assms by (auto simp add: Context_def wf_logger_def nth_append split: if_splits)
lemma wf_world1: "wf_logger world1 0"
  by (simp add: wf_logger_def world1_eq)

section \<open>Logging and closing never fail\<close>

text \<open>
  C7. Once a Logger has been constructed, each of \<open>Error\<close>, \<open>Warning\<close>, \<open>Notice\<close>, \<open>Info\<close>
  and \<open>Debug\<close> returns: there is no panic. What it returns is its receiver and nothing
  else, so no error reaches the caller; this holds for every format, every argument list,
  every state and every environment, also one in which the writes of the backends fail.
  The Logger stays a constructed Logger, so the same holds for the next call.
\<close>

theorem leveled_calls_never_fail:
  assumes "wf_logger s l"
  shows "(\<exists>s'. Error env l format v s = Some (l, s') \<and> wf_logger s' l) \<and>
         (\<exists>s'. Warning env l format v s = Some (l, s') \<and> wf_logger s' l) \<and>
         (\<exists>s'. Notice env l format v s = Some (l, s') \<and> wf_logger s' l) \<and>
         (\<exists>s'. Info env l format v s = Some (l, s') \<and> wf_logger s' l) \<and>
         (\<exists>s'. Debug env l format v s = Some (l, s') \<and> wf_logger s' l)"
proof -
  have any: "\<exists>s'. Logger_write env l level format v s = Some s' \<and> wf_logger s' l" for level
    using Logger_write_ok [OF assms, of env level format v] wf_logger_cong [OF assms]
    by blast
  show ?thesis
    using any [of LevelError] any [of LevelWarning] any [of LevelNotice] any [of LevelInfo]
      any [of LevelDebug]
    by (auto simp add: Error_def Warning_def Notice_def Info_def Debug_def)
qed

theorem leveled_calls_never_fail_witness:
  "wf_logger world1 0 \<and>
   (\<exists>s'. Error env2 0 ''disk full'' [] world1 = Some (0, s') \<and> wf_logger s' 0) \<and>
   (\<exists>s'. Warning env2 0 ''disk full'' [] world1 = Some (0, s') \<and> wf_logger s' 0) \<and>
   (\<exists>s'. Notice env2 0 ''disk full'' [] world1 = Some (0, s') \<and> wf_logger s' 0) \<and>
   (\<exists>s'. Info env2 0 ''disk full'' [] world1 = Some (0, s') \<and> wf_logger s' 0) \<and>
   (\<exists>s'. Debug env2 0 ''disk full'' [] world1 = Some (0, s') \<and> wf_logger s' 0)"
  using leveled_calls_never_fail [OF wf_world1, of env2 "''disk full''" "[]"] wf_world1
  by blast

text \<open>
  With the disk full the write of the backend fails; the call returns its receiver all the
  same, and nothing has been written.
\<close>

lemma Error_write_failure_is_dropped:
  "Error env2 0 ''disk full'' [] world1 =
     Some (0, world1\<lparr>calls := [BWrite 0 LevelError '''' ''disk full''], ticks := 1\<rparr>)"
  by (simp add: world1_eq Error_def env2_def eval_defs)

text \<open>
  C9. \<open>Close\<close> on a constructed Logger returns (no panic), and it has called \<open>Close\<close> on
  every backend of the Logger's list, in the order of the list. Every file/console backend
  of the list has its output closed afterwards; for a console backend that output is the
  standard error stream of the process, which is closed like any other file, and closing
  a file that is already closed (two console backends, or a second \<open>Close\<close>) is an error
  that \<open>fileBackend.Close\<close> drops.
\<close>

theorem Close_closes_every_backend:
  assumes "wf_logger s l"
  shows "\<exists>s'. Close l s = Some s' \<and>
           calls s' = calls s @ map BClose (backends (loggers s ! l)) \<and>
           (\<forall>b \<in> set (backends (loggers s ! l)). \<forall>fb.
              objs s ! b = FileBackend fb \<longrightarrow> file_closed s' (output' fb)) \<and>
           (\<forall>b \<in> set (backends (loggers s ! l)). \<forall>fb.
              objs s ! b = FileBackend fb \<and> output' fb = Stderr \<longrightarrow> f_closed (stderr s')) \<and>
           wf_logger s' l"
proof -
  from assms have "\<forall>b \<in> set (backends (loggers s ! l)). b < length (objs s)"
    by (simp add: wf_logger_def)
  from close_all_ok [OF this]
  obtain s' where s': "close_all (backends (loggers s ! l)) s = Some s'"
    "objs s' = objs s" "loggers s' = loggers s"
    "calls s' = calls s @ map BClose (backends (loggers s ! l))"
    "\<forall>b \<in> set (backends (loggers s ! l)). \<forall>fb.
       objs s ! b = FileBackend fb \<longrightarrow> file_closed s' (output' fb)"
    by blast
  have std: "\<forall>b \<in> set (backends (loggers s ! l)). \<forall>fb.
       objs s ! b = FileBackend fb \<and> output' fb = Stderr \<longrightarrow> f_closed (stderr s')"
  proof (intro ballI allI impI)
    fix b fb
    assume "b \<in> set (backends (loggers s ! l))"
      and "objs s ! b = FileBackend fb \<and> output' fb = Stderr"
    with s'(5) have "file_closed s' Stderr" by fastforce
    then show "f_closed (stderr s')" by (simp add: file_closed_def file_get_def)
  qed
  from assms have "Close l s = close_all (backends (loggers s ! l)) s"
    by (simp add: Close_def wf_logger_def)
  with s' std wf_logger_cong [OF assms s'(2) s'(3)] show ?thesis by simp
qed

theorem Close_closes_every_backend_witness:
  "wf_logger world1 0 \<and>
   (\<exists>s'. Close 0 world1 = Some s' \<and>
      calls s' = calls world1 @ map BClose (backends (loggers world1 ! 0)) \<and>
      (\<forall>b \<in> set (backends (loggers world1 ! 0)). \<forall>fb.
         objs world1 ! b = FileBackend fb \<longrightarrow> file_closed s' (output' fb)) \<and>
      (\<forall>b \<in> set (backends (loggers world1 ! 0)). \<forall>fb.
         objs world1 ! b = FileBackend fb \<and> output' fb = Stderr \<longrightarrow> f_closed (stderr s')) \<and>
      wf_logger s' 0)"
  using Close_closes_every_backend [OF wf_world1] wf_world1 by blast

text \<open>The console logger of the example: \<open>Close\<close> closes standard error.\<close>

lemma Close_console_closes_stderr:
  "Close 0 world1 =
     Some (world1\<lparr>stderr := \<lparr>f_path = ''/dev/stderr'', f_closed = True, f_data = []\<rparr>,
                  calls := [BClose 0]\<rparr>)"
  by (simp add: world1_eq Close_def backend_Close_def fileBackend_Close_def file_Close_def
      file_get_def file_put_def)

section \<open>The file backend: target, labels, line\<close>

lemma init_labels_tables:
  "init_labels env True = colored_labels env" "init_labels env False = plain_labels"
  by (simp_all add: init_labels_eq colored_labels_def plain_labels_def level_defs)

lemma open_output_console:
  "console config \<Longrightarrow> open_output env config s = (Inr (Stderr, True), s)"
  by (auto simp add: open_output_def console_def)

lemma newFileBackend_console:
  assumes "console config"
  shows "newFileBackend env config lg s =
           (Inr (length (objs s)),
            s\<lparr>fileLabels := colored_labels env,
              objs := objs s @
                [FileBackend \<lparr>logger = lg, output' = Stderr,
                   writer = log_New Stderr '''' (LstdFlags OR Lmicroseconds)\<rparr>]\<rparr>)"
  by (simp add: newFileBackend_def open_output_console [OF assms] init_labels_tables)

lemma newFileBackend_mkdir_fails:
  assumes "\<not> console config"
      and "os_MkdirAll env s (fst (path_Split (Path config))) 493 = Some e"
  shows "newFileBackend env config lg s =
           (Inl (OsError e),
            s\<lparr>fs_calls := fs_calls s @ [MkdirAll (fst (path_Split (Path config))) 493]\<rparr>)"
  using assms by (simp add: newFileBackend_def open_output_def console_def Let_def)

lemma newFileBackend_open_fails:
  assumes "\<not> console config"
      and "os_MkdirAll env s (fst (path_Split (Path config))) 493 = None"
      and "os_OpenFile env
             (s\<lparr>fs_calls := fs_calls s @ [MkdirAll (fst (path_Split (Path config))) 493]\<rparr>)
             (Path config) {O_APPEND, O_CREATE, O_WRONLY} 420 = Some e"
  shows "newFileBackend env config lg s =
           (Inl (FmtError (''failed to open logging file: '' @ e)),
            s\<lparr>fs_calls := fs_calls s @
                 [MkdirAll (fst (path_Split (Path config))) 493,
                  OpenFile (Path config) {O_APPEND, O_CREATE, O_WRONLY} 420]\<rparr>)"
  using assms by (simp add: newFileBackend_def open_output_def console_def Let_def)

lemma newFileBackend_file:
  assumes "\<not> console config"
      and "os_MkdirAll env s (fst (path_Split (Path config))) 493 = None"
      and "os_OpenFile env
             (s\<lparr>fs_calls := fs_calls s @ [MkdirAll (fst (path_Split (Path config))) 493]\<rparr>)
             (Path config) {O_APPEND, O_CREATE, O_WRONLY} 420 = None"
  shows "newFileBackend env config lg s =
           (Inr (length (objs s)),
            s\<lparr>fs_calls := fs_calls s @
                 [MkdirAll (fst (path_Split (Path config))) 493,
                  OpenFile (Path config) {O_APPEND, O_CREATE, O_WRONLY} 420],
              files := files s @ [\<lparr>f_path = Path config, f_closed = False, f_data = []\<rparr>],
              fileLabels := plain_labels,
              objs := objs s @
                [FileBackend \<lparr>logger = lg, output' = File (length (files s)),
                   writer = log_New (File (length (files s))) ''''
                     (LstdFlags OR Lmicroseconds)\<rparr>]\<rparr>)"
  using assms
  by (simp add: newFileBackend_def open_output_def console_def Let_def init_labels_tables)

lemma backend_Write_file:
  assumes "b < length (objs s)" and "objs s ! b = FileBackend fb"
      and "writer fb = \<lparr>lg_out = output' fb, lg_prefix = '''',
                         lg_flag = LstdFlags OR Lmicroseconds\<rparr>"
  shows "backend_Write env b level ctx format v s =
           Some (snd (file_Write env (output' fb)
             (spec_line (time_Now env (ticks s)) (index_map (fileLabels s) level) ctx
                (Sprintf env format v))
             (s\<lparr>calls := calls s @ [BWrite b level ctx (Sprintf env format v)],
                ticks := Suc (ticks s)\<rparr>)))"
proof -
  from assms(3) have w: "writer fb = log_New (output' fb) '''' (LstdFlags OR Lmicroseconds)"
    by (simp add: log_New_def)
  show ?thesis
    using assms(1,2)
      fileBackend_Write_eq [OF w, of env level ctx format v
        "s\<lparr>calls := calls s @ [BWrite b level ctx (Sprintf env format v)]\<rparr>"]
    by (simp add: backend_Write_def)
qed

lemma itoa_length: "wid \<le> length (itoa i wid)"
proof (induction i wid rule: itoa.induct)
  case (1 i wid)
  show ?case
  proof (cases "10 \<le> i \<or> 1 < wid")
    case True
    with "1.IH" have "wid - 1 \<le> length (itoa (i div 10) (wid - 1))" by simp
    with True show ?thesis by (subst itoa.simps) simp
  next
    case False
    then show ?thesis by (subst itoa.simps) simp
  qed
qed

text \<open>
  What \<open>newFileBackend\<close> does for the backend it makes, and what holds in the state it
  leaves:
  \<^item> with an empty path or the path "-", it touches no file, the backend it makes has
    standard error as its output and as the target of its writer, and the label table is
    the colour-coded one; in the state it leaves, a \<open>Write\<close> through the new backend hands
    to standard error the line with the colour-coded label;
  \<^item> with any other path it calls \<open>os.MkdirAll\<close> on the directory part of the path (mode
    0755) and returns that call's error if there is one; otherwise it calls \<open>os.OpenFile\<close>
    on the path with \<open>O_APPEND|O_CREATE|O_WRONLY\<close> (mode 0644) and returns that call's
    error, wrapped, if there is one; otherwise the backend it makes has the newly opened
    file as its output and as the target of its writer, and the label table is the plain
    one with a colon after each name; in the state it leaves, a \<open>Write\<close> through the new
    backend hands to that file the line with the plain label.
  The label table is the package-level one: this says nothing of a \<open>Write\<close> after the next
  \<open>newFileBackend\<close>.
\<close>

lemma newFileBackend_target:
  "(console config \<longrightarrow>
      (\<exists>s'. newFileBackend env config lg s = (Inr (length (objs s)), s') \<and>
            objs s' = objs s @
              [FileBackend \<lparr>logger = lg, output' = Stderr,
                 writer = \<lparr>lg_out = Stderr, lg_prefix = '''',
                            lg_flag = LstdFlags OR Lmicroseconds\<rparr>\<rparr>] \<and>
            fs_calls s' = fs_calls s \<and> files s' = files s \<and>
            fileLabels s' = colored_labels env \<and>
            (\<forall>level ctx format v.
               backend_Write env (length (objs s)) level ctx format v s' =
                 Some (snd (file_Write env Stderr
                   (spec_line (time_Now env (ticks s')) (index_map (colored_labels env) level)
                      ctx (Sprintf env format v))
                   (s'\<lparr>calls := calls s' @
                          [BWrite (length (objs s)) level ctx (Sprintf env format v)],
                       ticks := Suc (ticks s')\<rparr>)))))) \<and>
   (\<not> console config \<longrightarrow>
      (\<forall>e. os_MkdirAll env s (fst (path_Split (Path config))) 493 = Some e \<longrightarrow>
           fst (newFileBackend env config lg s) = Inl (OsError e) \<and>
           fs_calls (snd (newFileBackend env config lg s)) =
             fs_calls s @ [MkdirAll (fst (path_Split (Path config))) 493]) \<and>
      (\<forall>e. os_MkdirAll env s (fst (path_Split (Path config))) 493 = None \<and>
           os_OpenFile env
             (s\<lparr>fs_calls := fs_calls s @ [MkdirAll (fst (path_Split (Path config))) 493]\<rparr>)
             (Path config) {O_APPEND, O_CREATE, O_WRONLY} 420 = Some e \<longrightarrow>
           fst (newFileBackend env config lg s) =
             Inl (FmtError (''failed to open logging file: '' @ e)) \<and>
           fs_calls (snd (newFileBackend env config lg s)) =
             fs_calls s @
               [MkdirAll (fst (path_Split (Path config))) 493,
                OpenFile (Path config) {O_APPEND, O_CREATE, O_WRONLY} 420]) \<and>
      (os_MkdirAll env s (fst (path_Split (Path config))) 493 = None \<and>
       os_OpenFile env
         (s\<lparr>fs_calls := fs_calls s @ [MkdirAll (fst (path_Split (Path config))) 493]\<rparr>)
         (Path config) {O_APPEND, O_CREATE, O_WRONLY} 420 = None \<longrightarrow>
         (\<exists>s'. newFileBackend env config lg s = (Inr (length (objs s)), s') \<and>
               objs s' = objs s @
                 [FileBackend \<lparr>logger = lg, output' = File (length (files s)),
                    writer = \<lparr>lg_out = File (length (files s)), lg_prefix = '''',
                               lg_flag = LstdFlags OR Lmicroseconds\<rparr>\<rparr>] \<and>
               fs_calls s' =
                 fs_calls s @
                   [MkdirAll (fst (path_Split (Path config))) 493,
                    OpenFile (Path config) {O_APPEND, O_CREATE, O_WRONLY} 420] \<and>
               files s' = files s @ [\<lparr>f_path = Path config, f_closed = False, f_data = []\<rparr>] \<and>
               fileLabels s' = plain_labels \<and>
               (\<forall>level ctx format v.
                  backend_Write env (length (objs s)) level ctx format v s' =
                    Some (snd (file_Write env (File (length (files s)))
                      (spec_line (time_Now env (ticks s')) (index_map plain_labels level)
                         ctx (Sprintf env format v))
                      (s'\<lparr>calls := calls s' @
                             [BWrite (length (objs s)) level ctx (Sprintf env format v)],
                          ticks := Suc (ticks s')\<rparr>)))))))"
proof (intro conjI impI allI)
  assume "console config"
  from newFileBackend_console [OF this, of env lg s]
  show "\<exists>s'. newFileBackend env config lg s = (Inr (length (objs s)), s') \<and>
            objs s' = objs s @
              [FileBackend \<lparr>logger = lg, output' = Stderr,
                 writer = \<lparr>lg_out = Stderr, lg_prefix = '''',
                            lg_flag = LstdFlags OR Lmicroseconds\<rparr>\<rparr>] \<and>
            fs_calls s' = fs_calls s \<and> files s' = files s \<and>
            fileLabels s' = colored_labels env \<and>
            (\<forall>level ctx format v.
               backend_Write env (length (objs s)) level ctx format v s' =
                 Some (snd (file_Write env Stderr
                   (spec_line (time_Now env (ticks s')) (index_map (colored_labels env) level)
                      ctx (Sprintf env format v))
                   (s'\<lparr>calls := calls s' @
                          [BWrite (length (objs s)) level ctx (Sprintf env format v)],
                       ticks := Suc (ticks s')\<rparr>))))"
    by (simp add: log_New_def backend_Write_file)
next
  fix e
  assume "\<not> console config"
    and "os_MkdirAll env s (fst (path_Split (Path config))) 493 = Some e"
  from newFileBackend_mkdir_fails [OF this, of lg]
  show "fst (newFileBackend env config lg s) = Inl (OsError e)"
    and "fs_calls (snd (newFileBackend env config lg s)) =
           fs_calls s @ [MkdirAll (fst (path_Split (Path config))) 493]"
    by simp_all
next
  fix e
  assume n: "\<not> console config"
    and a: "os_MkdirAll env s (fst (path_Split (Path config))) 493 = None \<and>
       os_OpenFile env
         (s\<lparr>fs_calls := fs_calls s @ [MkdirAll (fst (path_Split (Path config))) 493]\<rparr>)
         (Path config) {O_APPEND, O_CREATE, O_WRONLY} 420 = Some e"
  from newFileBackend_open_fails [OF n conjunct1 [OF a] conjunct2 [OF a], of lg]
  show "fst (newFileBackend env config lg s) =
          Inl (FmtError (''failed to open logging file: '' @ e))"
    and "fs_calls (snd (newFileBackend env config lg s)) =
           fs_calls s @
             [MkdirAll (fst (path_Split (Path config))) 493,
              OpenFile (Path config) {O_APPEND, O_CREATE, O_WRONLY} 420]"
    by simp_all
next
  assume n: "\<not> console config"
    and a: "os_MkdirAll env s (fst (path_Split (Path config))) 493 = None \<and>
       os_OpenFile env
         (s\<lparr>fs_calls := fs_calls s @ [MkdirAll (fst (path_Split (Path config))) 493]\<rparr>)
         (Path config) {O_APPEND, O_CREATE, O_WRONLY} 420 = None"
  from newFileBackend_file [OF n conjunct1 [OF a] conjunct2 [OF a], of lg]
  show "\<exists>s'. newFileBackend env config lg s = (Inr (length (objs s)), s') \<and>
               objs s' = objs s @
                 [FileBackend \<lparr>logger = lg, output' = File (length (files s)),
                    writer = \<lparr>lg_out = File (length (files s)), lg_prefix = '''',
                               lg_flag = LstdFlags OR Lmicroseconds\<rparr>\<rparr>] \<and>
               fs_calls s' =
                 fs_calls s @
                   [MkdirAll (fst (path_Split (Path config))) 493,
                    OpenFile (Path config) {O_APPEND, O_CREATE, O_WRONLY} 420] \<and>
               files s' = files s @ [\<lparr>f_path = Path config, f_closed = False, f_data = []\<rparr>] \<and>
               fileLabels s' = plain_labels \<and>
               (\<forall>level ctx format v.
                  backend_Write env (length (objs s)) level ctx format v s' =
                    Some (snd (file_Write env (File (length (files s)))
                      (spec_line (time_Now env (ticks s')) (index_map plain_labels level)
                         ctx (Sprintf env format v))
                      (s'\<lparr>calls := calls s' @
                             [BWrite (length (objs s)) level ctx (Sprintf env format v)],
                          ticks := Suc (ticks s')\<rparr>))))"
    by (simp add: log_New_def backend_Write_file)
qed

lemma console_examples:
  "console cfg_warning" "\<not> console cfg_file" "\<not> console cfg_unwritable"
  by (simp_all add: console_def cfg_warning_def cfg_file_def cfg_unwritable_def)

lemma path_Split_examples:
  "fst (path_Split (Path cfg_file)) = ''/var/log/''"
  "fst (path_Split (Path cfg_unwritable)) = ''/dev/null/logs/''"
  by (simp_all add: path_Split_def cfg_file_def cfg_unwritable_def)

lemma newFileBackend_target_example:
  "console cfg_warning \<and>
   (\<exists>s'. newFileBackend env0 cfg_warning 0 world0 = (Inr (length (objs world0)), s') \<and>
         files s' = files world0 \<and> fs_calls s' = fs_calls world0 \<and>
         fileLabels s' = colored_labels env0) \<and>
   \<not> console cfg_unwritable \<and>
   os_MkdirAll env1 world0 (fst (path_Split (Path cfg_unwritable))) 493 =
     Some ''mkdir /dev/null: not a directory'' \<and>
   fst (newFileBackend env1 cfg_unwritable 0 world0) =
     Inl (OsError ''mkdir /dev/null: not a directory'') \<and>
   \<not> console cfg_file \<and>
   os_MkdirAll env3 world0 (fst (path_Split (Path cfg_file))) 493 = None \<and>
   os_OpenFile env3
     (world0\<lparr>fs_calls := fs_calls world0 @ [MkdirAll (fst (path_Split (Path cfg_file))) 493]\<rparr>)
     (Path cfg_file) {O_APPEND, O_CREATE, O_WRONLY} 420 = Some ''permission denied'' \<and>
   fst (newFileBackend env3 cfg_file 0 world0) =
     Inl (FmtError (''failed to open logging file: '' @ ''permission denied'')) \<and>
   os_MkdirAll env0 world0 (fst (path_Split (Path cfg_file))) 493 = None \<and>
   os_OpenFile env0
     (world0\<lparr>fs_calls := fs_calls world0 @ [MkdirAll (fst (path_Split (Path cfg_file))) 493]\<rparr>)
     (Path cfg_file) {O_APPEND, O_CREATE, O_WRONLY} 420 = None \<and>
   (\<exists>s'. newFileBackend env0 cfg_file 0 world0 = (Inr (length (objs world0)), s') \<and>
         fs_calls s' =
           fs_calls world0 @
             [MkdirAll (fst (path_Split (Path cfg_file))) 493,
              OpenFile (Path cfg_file) {O_APPEND, O_CREATE, O_WRONLY} 420] \<and>
         files s' = files world0 @ [\<lparr>f_path = Path cfg_file, f_closed = False, f_data = []\<rparr>] \<and>
         fileLabels s' = plain_labels)"
proof -
  have m1: "os_MkdirAll env1 world0 (fst (path_Split (Path cfg_unwritable))) 493 =
     Some ''mkdir /dev/null: not a directory''"
    by (simp add: env1_def env0_def path_Split_examples)
  have m3: "os_MkdirAll env3 world0 (fst (path_Split (Path cfg_file))) 493 = None"
    by (simp add: env3_def env0_def)
  have o3: "os_OpenFile env3
     (world0\<lparr>fs_calls := fs_calls world0 @ [MkdirAll (fst (path_Split (Path cfg_file))) 493]\<rparr>)
     (Path cfg_file) {O_APPEND, O_CREATE, O_WRONLY} 420 = Some ''permission denied''"
    by (simp add: env3_def env0_def)
  have m0: "os_MkdirAll env0 world0 (fst (path_Split (Path cfg_file))) 493 = None"
    by (simp add: env0_def)
  have o0: "os_OpenFile env0
     (world0\<lparr>fs_calls := fs_calls world0 @ [MkdirAll (fst (path_Split (Path cfg_file))) 493]\<rparr>)
     (Path cfg_file) {O_APPEND, O_CREATE, O_WRONLY} 420 = None"
    by (simp add: env0_def)
  from newFileBackend_target [of cfg_warning env0 0 world0] console_examples(1)
  have c1: "\<exists>s'. newFileBackend env0 cfg_warning 0 world0 = (Inr (length (objs world0)), s') \<and>
         files s' = files world0 \<and> fs_calls s' = fs_calls world0 \<and>
         fileLabels s' = colored_labels env0"
    by blast
  from newFileBackend_target [of cfg_unwritable env1 0 world0] console_examples(3) m1
  have c2: "fst (newFileBackend env1 cfg_unwritable 0 world0) =
     Inl (OsError ''mkdir /dev/null: not a directory'')"
    by blast
  from newFileBackend_target [of cfg_file env3 0 world0] console_examples(2) m3 o3
  have c3: "fst (newFileBackend env3 cfg_file 0 world0) =
     Inl (FmtError (''failed to open logging file: '' @ ''permission denied''))"
    by blast
  from newFileBackend_target [of cfg_file env0 0 world0] console_examples(2) m0 o0
  have c4: "\<exists>s'. newFileBackend env0 cfg_file 0 world0 = (Inr (length (objs world0)), s') \<and>
         fs_calls s' =
           fs_calls world0 @
             [MkdirAll (fst (path_Split (Path cfg_file))) 493,
              OpenFile (Path cfg_file) {O_APPEND, O_CREATE, O_WRONLY} 420] \<and>
         files s' = files world0 @ [\<lparr>f_path = Path cfg_file, f_closed = False, f_data = []\<rparr>] \<and>
         fileLabels s' = plain_labels"
    by blast
  from console_examples m1 m3 o3 m0 o0 c1 c2 c3 c4 show ?thesis by blast
qed

lemma newFileBackend_obj:
  assumes "newFileBackend env c lg s = (Inr b, s')"
  shows "b = length (objs s) \<and> length (objs s') = Suc (length (objs s)) \<and>
         take (length (objs s)) (objs s') = objs s \<and>
         fileLabels s' = init_labels env (console c) \<and>
         (\<exists>fb. objs s' ! b = FileBackend fb \<and>
               writer fb = log_New (output' fb) '''' (LstdFlags OR Lmicroseconds) \<and>
               (output' fb = Stderr \<longleftrightarrow> console c))"
  using assms
  by (auto simp add: newFileBackend_def open_output_def console_def Let_def
      split: if_splits option.splits)

lemma take_prefix_nth:
  assumes "take (length xs) ys = xs" and "i < length xs"
  shows "ys ! i = xs ! i \<and> i < length ys"
proof -
  from assms(1) have "length (take (length xs) ys) = length xs" by simp
  then have le: "length xs \<le> length ys" by simp
  from assms have "take (length xs) ys ! i = xs ! i" by simp
  with assms(2) le show ?thesis by simp
qed

lemma world2_eq:
  "world2 =
     \<lparr>loggers = [\<lparr>backends = [0, 1], context' = ''''\<rparr>],
      objs = [FileBackend \<lparr>logger = 0, output' = File 0,
                writer = \<lparr>lg_out = File 0, lg_prefix = '''', lg_flag = 7\<rparr>\<rparr>,
              FileBackend \<lparr>logger = 0, output' = Stderr,
                writer = \<lparr>lg_out = Stderr, lg_prefix = '''', lg_flag = 7\<rparr>\<rparr>],
      fileLabels = init_labels env0 True,
      stderr = \<lparr>f_path = ''/dev/stderr'', f_closed = False, f_data = []\<rparr>,
      files = [\<lparr>f_path = ''/var/log/app.log'', f_closed = False, f_data = []\<rparr>],
      fs_calls = [MkdirAll ''/var/log/'' 493,
                  OpenFile ''/var/log/app.log'' {O_APPEND, O_CREATE, O_WRONLY} 420],
      calls = [], ticks = 0\<rparr>"
  by (simp add: world2_def cfg_file_def cfg_warning_def NewLogger_def new_backend_def
      newFileBackend_def open_output_def world0_def env0_def Let_def log_New_def
      flags_std_micro path_Split_def)

lemma world3_eq:
  "world3 =
     \<lparr>loggers = [\<lparr>backends = [0, 1], context' = ''''\<rparr>],
      objs = [FileBackend \<lparr>logger = 0, output' = Stderr,
                writer = \<lparr>lg_out = Stderr, lg_prefix = '''', lg_flag = 7\<rparr>\<rparr>,
              FileBackend \<lparr>logger = 0, output' = File 0,
                writer = \<lparr>lg_out = File 0, lg_prefix = '''', lg_flag = 7\<rparr>\<rparr>],
      fileLabels = init_labels env0 False,
      stderr = \<lparr>f_path = ''/dev/stderr'', f_closed = False, f_data = []\<rparr>,
      files = [\<lparr>f_path = ''/var/log/app.log'', f_closed = False, f_data = []\<rparr>],
      fs_calls = [MkdirAll ''/var/log/'' 493,
                  OpenFile ''/var/log/app.log'' {O_APPEND, O_CREATE, O_WRONLY} 420],
      calls = [], ticks = 0\<rparr>"
  by (simp add: world3_def cfg_file_def cfg_warning_def NewLogger_def new_backend_def
      newFileBackend_def open_output_def world0_def env0_def Let_def log_New_def
      flags_std_micro path_Split_def)

text \<open>
  C5. The claim: a backend configured with an empty path or "-" writes to standard error
  with colour-coded level labels; one configured with any other path has its parent
  directories made, its file opened for append, and writes level labels without colour and
  with a colon. \<open>newFileBackend\<close> chooses the output as the claim says and computes
  \<open>useColors\<close> from the output of the backend it is making, but it stores the labels it
  builds from \<open>useColors\<close> in the package-level \<open>fileLabels\<close>, which the next \<open>newFileBackend\<close>
  overwrites and every \<open>Write\<close> reads. The code at a logger built from the console and then
  the log file: \<open>Info("hello")\<close> writes to standard error, through the console backend, the
  plain label with its colon.
\<close>

theorem console_line_with_plain_label:
  "Info env0 0 ''hello'' [] world3 =
     Some (0, world3
       \<lparr>stderr := \<lparr>f_path = ''/dev/stderr'', f_closed = False,
                   f_data = [''2024/05/17 09:30:07.123456 INFO: hello'' @ [CHR 0x0A]]\<rparr>,
        files := [\<lparr>f_path = ''/var/log/app.log'', f_closed = False,
                   f_data = [''2024/05/17 09:30:07.123456 INFO: hello'' @ [CHR 0x0A]]\<rparr>],
        calls := [BWrite 0 LevelInfo '''' ''hello'', BWrite 1 LevelInfo '''' ''hello''],
        ticks := 2\<rparr>)"
  by (simp add: world3_eq Info_def eval_defs)

text \<open>
  C6. The claim: every line a file/console backend writes is timestamp, level label,
  context and colon if there is a context, message; the timestamp has microseconds; and
  the label carries a colon exactly when the write goes to a file (and colour when it goes
  to the console). The label is read from the package-level \<open>fileLabels\<close>, which holds the
  style of the backend constructed last, although \<open>newFileBackend\<close> computes \<open>useColors\<close> for
  each backend from that backend's own output, and the earlier versions under src/unnamed
  disable the colours whenever the output is a file. The code at a logger built from the
  log file and then the console: \<open>Info("hello")\<close> writes to the log file the colour-coded
  label, with no colon.
\<close>

theorem file_line_with_coloured_label:
  "Info env0 0 ''hello'' [] world2 =
     Some (0, world2
       \<lparr>stderr := \<lparr>f_path = ''/dev/stderr'', f_closed = False,
                   f_data = [''2024/05/17 09:30:07.123456 [blue]INFO[/] hello'' @ [CHR 0x0A]]\<rparr>,
        files := [\<lparr>f_path = ''/var/log/app.log'', f_closed = False,
                   f_data = [''2024/05/17 09:30:07.123456 [blue]INFO[/] hello'' @ [CHR 0x0A]]\<rparr>],
        calls := [BWrite 0 LevelInfo '''' ''hello'', BWrite 1 LevelInfo '''' ''hello''],
        ticks := 2\<rparr>)"
  by (simp add: world2_eq Info_def eval_defs)

text \<open>
  What does hold of every write by a backend made by \<open>newFileBackend\<close>, at one of the five
  levels: the line handed to the output is timestamp, label, context and colon if the
  context is not empty, message, and a newline unless the message ends with one; the
  timestamp is date, time and six digits of microseconds; and the label is the one of the
  table installed by the most recent successful \<open>newFileBackend\<close>, whichever backend is
  writing.
\<close>

lemma fileBackend_Write_line:
  assumes "newFileBackend env config lg s0 = (Inr b0, s1)"
      and "fileLabels s = fileLabels s1"
      and "writer fb = log_New (output' fb) '''' (LstdFlags OR Lmicroseconds)"
      and "(name, level) \<in> set levelMap"
  shows "fileBackend_Write env fb level ctx format v s =
           snd (file_Write env (output' fb)
                  (stamp (time_Now env (ticks s)) @
                   (if console config
                    then ansi_Color env (ToUpper name) (index_map fileColors level)
                    else ToUpper name @ '':'') @
                   '' '' @ (if ctx = '''' then '''' else ctx @ '': '') @
                   Sprintf env format v @
                   (if Sprintf env format v = [] \<or> last (Sprintf env format v) \<noteq> CHR 0x0A
                    then [CHR 0x0A] else []))
                  (s\<lparr>ticks := Suc (ticks s)\<rparr>))"
proof -
  from newFileBackend_obj [OF assms(1)] assms(2)
  have "fileLabels s = init_labels env (console config)" by simp
  with init_labels_level [OF assms(4), of env "console config"]
  have "index_map (fileLabels s) level = file_label env (console config) name level"
    by simp
  with fileBackend_Write_eq [OF assms(3), of env level ctx format v s]
  show ?thesis by (simp add: spec_line_def file_label_def)
qed

lemma newFileBackend_cfg_file:
  "newFileBackend env0 cfg_file 0 world0 =
     (Inr 0, snd (newFileBackend env0 cfg_file 0 world0))"
  by (simp add: newFileBackend_def open_output_def cfg_file_def env0_def world0_def Let_def)

lemma fileLabels_world_file:
  "fileLabels world_file = fileLabels (snd (newFileBackend env0 cfg_file 0 world0))"
  by (simp add: world_file_def NewLogger_def new_backend_def newFileBackend_def
      open_output_def cfg_file_def env0_def world0_def Let_def)

lemma fileBackend_Write_line_example:
  "newFileBackend env0 cfg_file 0 world0 =
     (Inr 0, snd (newFileBackend env0 cfg_file 0 world0)) \<and>
   fileLabels world_file = fileLabels (snd (newFileBackend env0 cfg_file 0 world0)) \<and>
   writer fb_file = log_New (output' fb_file) '''' (LstdFlags OR Lmicroseconds) \<and>
   (''info'', LevelInfo) \<in> set levelMap \<and>
   fileBackend_Write env0 fb_file LevelInfo ''req'' ''hello'' [] world_file =
     snd (file_Write env0 (output' fb_file)
            (stamp (time_Now env0 (ticks world_file)) @
             (if console cfg_file
              then ansi_Color env0 (ToUpper ''info'') (index_map fileColors LevelInfo)
              else ToUpper ''info'' @ '':'') @
             '' '' @ (if ''req'' = '''' then '''' else ''req'' @ '': '') @
             Sprintf env0 ''hello'' [] @
             (if Sprintf env0 ''hello'' [] = [] \<or> last (Sprintf env0 ''hello'' []) \<noteq> CHR 0x0A
              then [CHR 0x0A] else []))
            (world_file\<lparr>ticks := Suc (ticks world_file)\<rparr>))"
proof -
  have w: "writer fb_file = log_New (output' fb_file) '''' (LstdFlags OR Lmicroseconds)"
    by (simp add: fb_file_def)
  have m: "(''info'', LevelInfo) \<in> set levelMap"
    by (simp add: levelMap_def)
  from fileBackend_Write_line [OF newFileBackend_cfg_file fileLabels_world_file w m,
      of "''req''" "''hello''" "[]"]
    newFileBackend_cfg_file fileLabels_world_file w m
  show ?thesis by blast
qed

text \<open>The same write, evaluated: one line on the log file, with context and colon.\<close>

lemma Write_world_file_example:
  "fileBackend_Write env0 fb_file LevelInfo ''req'' ''hello'' [] world_file =
     world_file
       \<lparr>files := [\<lparr>f_path = ''/var/log/app.log'', f_closed = False,
                   f_data = [''2024/05/17 09:30:07.123456 INFO: req: hello'' @ [CHR 0x0A]]\<rparr>],
        ticks := 1\<rparr>"
  by (simp add: world_file_def fb_file_def cfg_file_def path_Split_def LstdFlags_def eval_defs)

section \<open>The label table is shared\<close>

text \<open>
  C10. \<open>newFileBackend\<close> assigns a new table to the package-level variable \<open>fileLabels\<close>,
  whatever the table was. For two file/console backends constructed one after the other
  (anything may happen in between that keeps the first backend object), and for every
  later state in which the table has not been assigned again, a \<open>Write\<close> through either
  backend at one of the five levels writes, to that backend's own output, the line whose
  label has the style of the second configuration: colour-coded when the second backend
  is the console, plain with a colon when it is a file. The output of each backend is
  standard error or a file according to its own configuration.
\<close>

theorem fileLabels_follow_latest_backend:
  assumes "newFileBackend env c1 lg1 s0 = (Inr b1, s1)"
      and "take (length (objs s1)) (objs s1') = objs s1"
      and "newFileBackend env c2 lg2 s1' = (Inr b2, s2)"
      and "fileLabels s = fileLabels s2"
      and "take (length (objs s2)) (objs s) = objs s2"
      and "(name, level) \<in> set levelMap"
  shows "fileLabels s2 = (if console c2 then colored_labels env else plain_labels) \<and>
         (\<forall>b c. (b = b1 \<and> c = c1) \<or> (b = b2 \<and> c = c2) \<longrightarrow>
            (\<exists>fb. objs s ! b = FileBackend fb \<and>
                  (output' fb = Stderr \<longleftrightarrow> console c) \<and>
                  backend_Write env b level ctx format v s =
                    Some (snd (file_Write env (output' fb)
                      (spec_line (time_Now env (ticks s))
                         (if console c2
                          then ansi_Color env (ToUpper name) (index_map fileColors level)
                          else ToUpper name @ '':'')
                         ctx (Sprintf env format v))
                      (s\<lparr>calls := calls s @ [BWrite b level ctx (Sprintf env format v)],
                         ticks := Suc (ticks s)\<rparr>)))))"
proof -
  note o1 = newFileBackend_obj [OF assms(1)]
  note o2 = newFileBackend_obj [OF assms(3)]
  from o2 have tab: "fileLabels s2 = (if console c2 then colored_labels env else plain_labels)"
    by (simp add: init_labels_tables)
  from o2 assms(4) have lab: "fileLabels s = init_labels env (console c2)" by simp
  have label: "index_map (fileLabels s) level = file_label env (console c2) name level"
    using init_labels_level [OF assms(6), of env "console c2"] lab by simp
  have wr: "\<exists>fb. objs s ! b = FileBackend fb \<and> (output' fb = Stderr \<longleftrightarrow> console c) \<and>
             backend_Write env b level ctx format v s =
               Some (snd (file_Write env (output' fb)
                 (spec_line (time_Now env (ticks s))
                    (if console c2
                     then ansi_Color env (ToUpper name) (index_map fileColors level)
                     else ToUpper name @ '':'')
                    ctx (Sprintf env format v))
                 (s\<lparr>calls := calls s @ [BWrite b level ctx (Sprintf env format v)],
                    ticks := Suc (ticks s)\<rparr>)))"
    if valid: "b < length (objs s)"
      and obj: "\<exists>fb. objs s ! b = FileBackend fb \<and>
                 writer fb = log_New (output' fb) '''' (LstdFlags OR Lmicroseconds) \<and>
                 (output' fb = Stderr \<longleftrightarrow> console c)"
    for b c
  proof -
    from obj obtain fb where fb: "objs s ! b = FileBackend fb"
      "writer fb = log_New (output' fb) '''' (LstdFlags OR Lmicroseconds)"
      "output' fb = Stderr \<longleftrightarrow> console c"
      by blast
    let ?s1 = "s\<lparr>calls := calls s @ [BWrite b level ctx (Sprintf env format v)]\<rparr>"
    have "backend_Write env b level ctx format v s =
            Some (fileBackend_Write env fb level ctx format v ?s1)"
      using valid fb(1) by (simp add: backend_Write_def)
    also have "fileBackend_Write env fb level ctx format v ?s1 =
            snd (file_Write env (output' fb)
                   (spec_line (time_Now env (ticks ?s1)) (index_map (fileLabels ?s1) level)
                      ctx (Sprintf env format v))
                   (?s1\<lparr>ticks := Suc (ticks ?s1)\<rparr>))"
      by (rule fileBackend_Write_eq [OF fb(2)])
    finally show ?thesis
      using fb(1,3) label by (auto simp add: file_label_def)
  qed
  have second: "b2 < length (objs s2)" using o2 by simp
  from take_prefix_nth [OF assms(5) second] o2
  have v2: "b2 < length (objs s)"
    and ob2: "\<exists>fb. objs s ! b2 = FileBackend fb \<and>
                writer fb = log_New (output' fb) '''' (LstdFlags OR Lmicroseconds) \<and>
                (output' fb = Stderr \<longleftrightarrow> console c2)"
    by auto
  have first: "b1 < length (objs s1)" using o1 by simp
  from take_prefix_nth [OF assms(2) first]
  have a: "objs s1' ! b1 = objs s1 ! b1" "b1 < length (objs s1')" by simp_all
  from o2 a(2) have b: "b1 < length (objs s2)" by simp
  from o2 have "take (length (objs s1')) (objs s2) = objs s1'" by simp
  from take_prefix_nth [OF this a(2)] have c: "objs s2 ! b1 = objs s1' ! b1" by simp
  from take_prefix_nth [OF assms(5) b] a(1) c o1
  have v1: "b1 < length (objs s)"
    and ob1: "\<exists>fb. objs s ! b1 = FileBackend fb \<and>
                writer fb = log_New (output' fb) '''' (LstdFlags OR Lmicroseconds) \<and>
                (output' fb = Stderr \<longleftrightarrow> console c1)"
    by auto
  from tab wr [OF v1 ob1] wr [OF v2 ob2] show ?thesis by blast
qed
lemma newFileBackend_world_a:
  "newFileBackend env0 cfg_file 0 world0 = (Inr 0, world_a)"
  by (simp add: world_a_def newFileBackend_def open_output_def cfg_file_def env0_def
      world0_def Let_def)

lemma newFileBackend_world_b:
  "newFileBackend env0 cfg_warning 0 world_a = (Inr 1, world_b)"
  by (simp add: world_b_def world_a_def newFileBackend_def open_output_def cfg_file_def
      cfg_warning_def env0_def world0_def Let_def)

theorem fileLabels_follow_latest_backend_witness:
  "newFileBackend env0 cfg_file 0 world0 = (Inr 0, world_a) \<and>
   take (length (objs world_a)) (objs world_a) = objs world_a \<and>
   newFileBackend env0 cfg_warning 0 world_a = (Inr 1, world_b) \<and>
   fileLabels world_b = fileLabels world_b \<and>
   take (length (objs world_b)) (objs world_b) = objs world_b \<and>
   (''info'', LevelInfo) \<in> set levelMap \<and>
   \<not> console cfg_file \<and> console cfg_warning \<and>
   fileLabels world_b = colored_labels env0 \<and>
   (\<exists>fb. objs world_b ! 0 = FileBackend fb \<and>
         (output' fb = Stderr \<longleftrightarrow> console cfg_file) \<and>
         backend_Write env0 0 LevelInfo ''req'' ''hello'' [] world_b =
           Some (snd (file_Write env0 (output' fb)
             (spec_line (time_Now env0 (ticks world_b))
                (if console cfg_warning
                 then ansi_Color env0 (ToUpper ''info'') (index_map fileColors LevelInfo)
                 else ToUpper ''info'' @ '':'')
                ''req'' (Sprintf env0 ''hello'' []))
             (world_b\<lparr>calls := calls world_b @
                          [BWrite 0 LevelInfo ''req'' (Sprintf env0 ''hello'' [])],
                ticks := Suc (ticks world_b)\<rparr>))))"
proof -
  have t1: "take (length (objs world_a)) (objs world_a) = objs world_a" by simp
  have t2: "take (length (objs world_b)) (objs world_b) = objs world_b" by simp
  have m: "(''info'', LevelInfo) \<in> set levelMap" by (simp add: levelMap_def)
  note T = fileLabels_follow_latest_backend [OF newFileBackend_world_a t1
      newFileBackend_world_b refl t2 m, of "''req''" "''hello''" "[]"]
  from T console_examples(1) have tab: "fileLabels world_b = colored_labels env0" by simp
  from T have "\<exists>fb. objs world_b ! 0 = FileBackend fb \<and>
         (output' fb = Stderr \<longleftrightarrow> console cfg_file) \<and>
         backend_Write env0 0 LevelInfo ''req'' ''hello'' [] world_b =
           Some (snd (file_Write env0 (output' fb)
             (spec_line (time_Now env0 (ticks world_b))
                (if console cfg_warning
                 then ansi_Color env0 (ToUpper ''info'') (index_map fileColors LevelInfo)
                 else ToUpper ''info'' @ '':'')
                ''req'' (Sprintf env0 ''hello'' []))
             (world_b\<lparr>calls := calls world_b @
                          [BWrite 0 LevelInfo ''req'' (Sprintf env0 ''hello'' [])],
                ticks := Suc (ticks world_b)\<rparr>)))"
    by blast
  with newFileBackend_world_a newFileBackend_world_b t1 t2 m console_examples(1,2) tab
  show ?thesis by blast
qed

section \<open>Constructed loggers stay constructed\<close>

text \<open>
  A constructed Logger stays one: a later \<open>NewLogger\<close>, whether it succeeds or fails, only
  adds to the heap.
\<close>

lemma new_backend_extends:
  assumes "new_backend env cfg lg s = (r, s')"
  shows "loggers s' = loggers s \<and> take (length (objs s)) (objs s') = objs s"
proof (cases r)
  case (Inl e)
  with assms new_backend_Inl [of env cfg lg s e s'] show ?thesis by simp
next
  case (Inr b)
  with assms new_backend_Inr [of env cfg lg s b s'] show ?thesis by auto
qed

lemma NewLogger_loop_extends:
  "NewLogger_loop env lg cfgs s = (r, s') \<Longrightarrow>
   length (loggers s') = length (loggers s) \<and>
   (\<forall>k. k \<noteq> lg \<longrightarrow> loggers s' ! k = loggers s ! k) \<and>
   take (length (objs s)) (objs s') = objs s"
proof (induction cfgs arbitrary: s)
  case Nil
  then show ?case by simp
next
  case (Cons c cfgs)
  obtain r1 s1 where nb: "new_backend env c lg s = (r1, s1)"
    by (cases "new_backend env c lg s")
  note ext = new_backend_extends [OF nb]
  show ?case
  proof (cases r1)
    case (Inl e)
    with Cons.prems nb ext show ?thesis by auto
  next
    case (Inr b)
    let ?s2 = "s1\<lparr>loggers := (loggers s1)
                 [lg := (loggers s1 ! lg)\<lparr>backends := backends (loggers s1 ! lg) @ [b]\<rparr>]\<rparr>"
    from Cons.prems nb Inr have rest: "NewLogger_loop env lg cfgs ?s2 = (r, s')" by simp
    from Cons.IH [OF rest]
    have ih: "length (loggers s') = length (loggers ?s2)"
      "\<forall>k. k \<noteq> lg \<longrightarrow> loggers s' ! k = loggers ?s2 ! k"
      "take (length (objs ?s2)) (objs s') = objs ?s2"
      by simp_all
    from ext have "length (take (length (objs s)) (objs s1)) = length (objs s)" by simp
    then have le: "length (objs s) \<le> length (objs s1)" by simp
    have "take (length (objs s)) (objs s') =
          take (length (objs s)) (take (length (objs ?s2)) (objs s'))"
      using le by (simp add: min_def)
    also have "\<dots> = take (length (objs s)) (objs s1)" using ih(3) by simp
    also have "\<dots> = objs s" using ext by simp
    finally have "take (length (objs s)) (objs s') = objs s" .
    with ih(1,2) ext show ?thesis by simp
  qed
qed

lemma NewLogger_keeps_wf:
  assumes "wf_logger s l"
  shows "wf_logger (snd (NewLogger env configs s)) l"
proof -
  let ?s0 = "s\<lparr>loggers := loggers s @ [\<lparr>backends = [], context' = ''''\<rparr>]\<rparr>"
  obtain r s' where lp: "NewLogger_loop env (length (loggers s)) configs ?s0 = (r, s')"
    by (cases "NewLogger_loop env (length (loggers s)) configs ?s0")
  from NewLogger_loop_extends [OF lp] assms
  have a: "length (loggers s') = Suc (length (loggers s))"
    "loggers s' ! l = loggers s ! l"
    "take (length (objs s)) (objs s') = objs s"
    by (auto simp add: wf_logger_def nth_append)
  have "b < length (objs s')" if "b < length (objs s)" for b
    using take_prefix_nth [OF a(3) that] by simp
  with assms a lp show ?thesis
    by (simp add: NewLogger_def wf_logger_def)
qed

end
